theory Spec2Isabelle
  imports Complex_Main
begin

section \<open>Python values and exceptions\<close>

text \<open>
  The values that travel through the queue are arbitrary Python objects. The model keeps
  the distinctions the code makes: \<open>isinstance(data, dict)\<close>, \<open>isinstance(data, list)\<close>,
  and, for everything else, \<open>isinstance(data, DeclarativeMeta)\<close> and
  \<open>hasattr(data, "_sa_instance_state")\<close>. A dictionary is an association list of key and
  value. \<open>PObj name meta sa\<close> is any other object (a datetime, an exception, a SQLAlchemy
  model): \<open>meta\<close> says whether it is an instance of \<open>DeclarativeMeta\<close> (a model class),
  \<open>sa\<close> whether it has the attribute \<open>_sa_instance_state\<close> (a model instance).
\<close>

datatype pyval =
    PNone
  | PBool bool
  | PInt int
  | PStr string
  | PEnum string
  | PList "pyval list"
  | PTuple "pyval list"
  | PSet "pyval list"
  | PDict "(pyval \<times> pyval) list"
  | PObj string bool bool

text \<open>
  The exceptions. \<open>InvalidNodeTypeValue\<close> is the \<open>ValueError\<close> that \<open>NodeType.value_of\<close>
  raises; its message, which is not ASCII, is formatted from the value it was given.
\<close>

datatype error =
    ValueError string
  | InvalidNodeTypeValue
  | TypeError string
  | AttributeError
  | GenerateTaskStoppedError

section \<open>The shared key-value store\<close>

text \<open>
  \<open>redis_client\<close>, once initialised, is a map from keys to a time to live (seconds)
  and a value; \<open>setex key ttl value\<close> writes, \<open>get key\<close> reads. Values are the strings
  that the code writes: the client is set up with \<open>encoding = "utf-8"\<close> and
  \<open>decode_responses = False\<close>, so \<open>get\<close> returns their UTF-8 bytes, which
  \<open>decode("utf-8")\<close> turns back.
\<close>

type_synonym redis = "string \<rightharpoonup> (nat \<times> string)"

definition setex :: "redis \<Rightarrow> string \<Rightarrow> nat \<Rightarrow> string \<Rightarrow> redis" where
  "setex r key ttl v = r(key \<mapsto> (ttl, v))"

definition redis_get :: "redis \<Rightarrow> string \<Rightarrow> string option" where
  "redis_get r key = map_option snd (r key)"

section \<open>Queue events\<close>

text \<open>
  Modelled from the spec: the module \<open>core.app.entities.queue_entities\<close> that declares the
  queue event classes is not among the sources. Following the spec's "tagged record", an
  event is the class named at its construction together with the keyword arguments given
  there; the classes are those the sources import, none a subclass of another.
\<close>

datatype event_class =
    QueueStopEvent
  | QueueErrorEvent
  | QueuePingEvent
  | QueueMessageEndEvent
  | QueueAdvancedChatMessageEndEvent
  | QueueLLMChunkEvent
  | QueueAgentMessageEvent
  | QueueWorkflowStartedEvent
  | QueueWorkflowSucceededEvent
  | QueueWorkflowFailedEvent
  | QueueNodeStartedEvent
  | QueueNodeSucceededEvent
  | QueueNodeFailedEvent
  | QueueTextChunkEvent
  | QueueRetrieverResourcesEvent
  | QueueParallelBranchRunStartedEvent
  | QueueParallelBranchRunSucceededEvent
  | QueueParallelBranchRunFailedEvent
  | QueueIterationStartEvent
  | QueueIterationNextEvent
  | QueueIterationCompletedEvent

record app_queue_event =
  event_class :: event_class
  kwargs :: "(string \<times> pyval) list"

text \<open>\<open>event.model_dump()\<close>: the dictionary of the event's fields.\<close>

definition model_dump :: "app_queue_event \<Rightarrow> pyval" where
  "model_dump e = PDict (map (\<lambda>(k, v). (PStr k, v)) (kwargs e))"

datatype publish_from = APPLICATION_MANAGER | TASK_PIPELINE

text \<open>
  The enumeration \<open>InvokeFrom\<close> is declared in a module that is not among the sources;
  its members here are the four that the sources name.
\<close>

datatype invoke_from = SERVICE_API | WEB_APP | EXPLORE | DEBUGGER

record message_queue_message =
  msg_task_id :: string
  msg_message_id :: string
  msg_conversation_id :: string
  msg_app_mode :: string
  msg_event :: app_queue_event

section \<open>AppQueueManager and MessageBasedAppQueueManager\<close>

text \<open>
  The manager's fields. \<open>q\<close> is the \<open>queue.Queue\<close>, oldest item first; the item \<open>None\<close> is
  the sentinel that \<open>stop_listen\<close> puts.
\<close>

record queue_manager =
  task_id :: string
  user_id :: string
  invoke_from :: invoke_from
  conversation_id :: string
  app_mode :: string
  message_id :: string
  q :: "message_queue_message option list"

definition generate_task_belong_cache_key :: "string \<Rightarrow> string" where
  "generate_task_belong_cache_key t = ''generate_task_belong:'' @ t"

definition generate_stopped_cache_key :: "string \<Rightarrow> string" where
  "generate_stopped_cache_key t = ''generate_task_stopped:'' @ t"

definition user_prefix :: "invoke_from \<Rightarrow> string" where
  "user_prefix i = (if i \<in> {EXPLORE, DEBUGGER} then ''account'' else ''end-user'')"

text \<open>
  \<open>MessageBasedAppQueueManager.__init__\<close> with \<open>AppQueueManager.__init__\<close>: an empty
  \<open>user_id\<close> raises, otherwise the owner of the task is recorded for 1800 seconds and the
  manager starts with an empty queue.
\<close>

definition init ::
  "redis \<Rightarrow> string \<Rightarrow> string \<Rightarrow> invoke_from \<Rightarrow> string \<Rightarrow> string \<Rightarrow> string
     \<Rightarrow> error + (redis \<times> queue_manager)" where
  "init r t u i c a mid =
     (if u = [] then Inl (ValueError ''user is required'')
      else Inr (setex r (generate_task_belong_cache_key t) 1800 (user_prefix i @ ''-'' @ u),
                \<lparr>task_id = t, user_id = u, invoke_from = i, conversation_id = c,
                 app_mode = a, message_id = mid, q = []\<rparr>))"

definition set_stop_flag :: "redis \<Rightarrow> string \<Rightarrow> invoke_from \<Rightarrow> string \<Rightarrow> redis" where
  "set_stop_flag r t i u =
     (case redis_get r (generate_task_belong_cache_key t) of
        None \<Rightarrow> r
      | Some result \<Rightarrow>
          if result \<noteq> user_prefix i @ ''-'' @ u then r
          else setex r (generate_stopped_cache_key t) 600 ''1'')"

definition is_stopped :: "redis \<Rightarrow> queue_manager \<Rightarrow> bool" where
  "is_stopped r m =
     (case redis_get r (generate_stopped_cache_key (task_id m)) of
        Some result \<Rightarrow> True
      | None \<Rightarrow> False)"

definition sqlalchemy_message :: string where
  "sqlalchemy_message =
     ''Critical Error: Passing SQLAlchemy Model instances '' @
     ''that cause thread safety issues is not allowed.''"

text \<open>
  \<open>_check_for_sqlalchemy_models\<close>: the two loops are \<open>check_values\<close> (over
  \<open>data.items()\<close>, looking at the value only) and \<open>check_items\<close>; the first exception
  ends the traversal.
\<close>

fun check_for_sqlalchemy_models :: "pyval \<Rightarrow> error + unit"
  and check_values :: "(pyval \<times> pyval) list \<Rightarrow> error + unit"
  and check_items :: "pyval list \<Rightarrow> error + unit" where
  "check_for_sqlalchemy_models (PDict kvs) = check_values kvs"
| "check_for_sqlalchemy_models (PList xs) = check_items xs"
| "check_for_sqlalchemy_models (PObj n meta sa) =
     (if meta \<or> sa then Inl (TypeError sqlalchemy_message) else Inr ())"
| "check_for_sqlalchemy_models PNone = Inr ()"
| "check_for_sqlalchemy_models (PBool b) = Inr ()"
| "check_for_sqlalchemy_models (PInt n) = Inr ()"
| "check_for_sqlalchemy_models (PStr s) = Inr ()"
| "check_for_sqlalchemy_models (PEnum s) = Inr ()"
| "check_for_sqlalchemy_models (PTuple xs) = Inr ()"
| "check_for_sqlalchemy_models (PSet xs) = Inr ()"
| "check_values [] = Inr ()"
| "check_values (kv # kvs) =
     (case check_for_sqlalchemy_models (snd kv) of
        Inl e \<Rightarrow> Inl e
      | Inr u \<Rightarrow> check_values kvs)"
| "check_items [] = Inr ()"
| "check_items (x # xs) =
     (case check_for_sqlalchemy_models x of
        Inl e \<Rightarrow> Inl e
      | Inr u \<Rightarrow> check_items xs)"

definition stop_listen :: "queue_manager \<Rightarrow> queue_manager" where
  "stop_listen m = m\<lparr>q := q m @ [None]\<rparr>"

definition closes_queue :: "app_queue_event \<Rightarrow> bool" where
  "closes_queue e \<longleftrightarrow>
     event_class e \<in> {QueueStopEvent, QueueErrorEvent, QueueMessageEndEvent,
                      QueueAdvancedChatMessageEndEvent}"

definition construct_queue_message :: "queue_manager \<Rightarrow> app_queue_event \<Rightarrow> message_queue_message" where
  "construct_queue_message m e =
     \<lparr>msg_task_id = task_id m, msg_message_id = message_id m,
      msg_conversation_id = conversation_id m, msg_app_mode = app_mode m, msg_event = e\<rparr>"

text \<open>
  \<open>MessageBasedAppQueueManager._publish\<close>. The result is the manager after the call and
  either the exception raised or \<open>()\<close>: the queue is written before the exception.
\<close>

definition message_based_publish ::
  "redis \<Rightarrow> queue_manager \<Rightarrow> app_queue_event \<Rightarrow> publish_from \<Rightarrow> queue_manager \<times> (error + unit)" where
  "message_based_publish r m e pub_from =
     (let message = construct_queue_message m e;
          m1 = m\<lparr>q := q m @ [Some message]\<rparr>;
          m2 = (if closes_queue e then stop_listen m1 else m1)
      in if pub_from = APPLICATION_MANAGER \<and> is_stopped r m2
         then (m2, Inl GenerateTaskStoppedError)
         else (m2, Inr ()))"

text \<open>\<open>AppQueueManager.publish\<close>: the check first, then \<open>_publish\<close>.\<close>

definition publish ::
  "redis \<Rightarrow> queue_manager \<Rightarrow> app_queue_event \<Rightarrow> publish_from \<Rightarrow> queue_manager \<times> (error + unit)" where
  "publish r m e pub_from =
     (case check_for_sqlalchemy_models (model_dump e) of
        Inl err \<Rightarrow> (m, Inl err)
      | Inr u \<Rightarrow> message_based_publish r m e pub_from)"

section \<open>listen\<close>

text \<open>
  \<open>listen\<close> is a generator running in the consumer's thread while other threads
  publish. Nothing synchronises the two queue writes of \<open>_publish\<close>, the put of the
  message and the put of the sentinel in \<open>stop_listen\<close>: a put of another thread can fall
  between them. So what the other threads do is a list of single puts. \<open>Put_message e\<close>
  is the first write of a call \<open>publish(e, _)\<close>; the call has run its check before, and
  puts nothing when the check raises. \<open>Put_sentinel\<close> is the second write of a call whose
  event is a closing one. An exception of such a call goes to its caller.
\<close>

datatype put = Put_message app_queue_event | Put_sentinel

fun deliver :: "put list \<Rightarrow> queue_manager \<Rightarrow> queue_manager" where
  "deliver [] m = m"
| "deliver (Put_message e # ps) m =
     deliver ps
       (case check_for_sqlalchemy_models (model_dump e) of
          Inl err \<Rightarrow> m
        | Inr u \<Rightarrow> m\<lparr>q := q m @ [Some (construct_queue_message m e)]\<rparr>)"
| "deliver (Put_sentinel # ps) m = deliver ps (stop_listen m)"

text \<open>
  One \<open>tick\<close> is one pass of the \<open>while True\<close> loop of \<open>listen\<close> together with what the
  rest of the system does meanwhile: \<open>arrivals\<close> are the puts of other threads that land
  before \<open>self._q.get(timeout=1)\<close> returns or gives up, \<open>suspended\<close> those that land
  after that and before the \<open>finally\<close> block writes to the queue (while the generator is
  suspended at \<open>yield\<close>, when it yields), \<open>now\<close> is \<open>time.time() - start_time\<close> as read in
  the \<open>finally\<close> block and \<open>store\<close> the shared store at that moment. An
  \<open>interleaved_tick\<close> has also the puts that land inside the \<open>finally\<close> block:
  \<open>between\<close> the two queue writes of its \<open>publish\<close> of the stop event, and
  \<open>before_ping\<close>, after that \<open>publish\<close> and before the one of the ping event.
\<close>

record tick =
  arrivals :: "put list"
  suspended :: "put list"
  now :: real
  store :: redis

record interleaved_tick = tick +
  between :: "put list"
  before_ping :: "put list"

definition stop_event :: app_queue_event where
  "stop_event =
     \<lparr>event_class = QueueStopEvent,
      kwargs = [(''stopped_by'', PEnum ''QueueStopEvent.StopBy.USER_MANUAL'')]\<rparr>"

definition ping_event :: app_queue_event where
  "ping_event = \<lparr>event_class = QueuePingEvent, kwargs = []\<rparr>"

text \<open>
  The \<open>finally\<close> block of the loop run on its own, with \<open>listen_timeout\<close> and
  \<open>last_ping_time\<close>; it returns the manager, the new \<open>last_ping_time\<close> and the
  exception of a \<open>publish\<close>, if any.
\<close>

definition listen_finally ::
  "nat \<Rightarrow> tick \<Rightarrow> queue_manager \<Rightarrow> int \<Rightarrow> (queue_manager \<times> int) \<times> (error + unit)" where
  "listen_finally listen_timeout t m last_ping_time =
     (let elapsed_time = now t;
          p1 = (if elapsed_time \<ge> real listen_timeout \<or> is_stopped (store t) m
                then publish (store t) m stop_event TASK_PIPELINE
                else (m, Inr ()))
      in case snd p1 of
           Inl e \<Rightarrow> ((fst p1, last_ping_time), Inl e)
         | Inr u \<Rightarrow>
             if \<lfloor>elapsed_time / 10\<rfloor> > last_ping_time
             then (let p2 = publish (store t) (fst p1) ping_event TASK_PIPELINE
                   in case snd p2 of
                        Inl e \<Rightarrow> ((fst p2, last_ping_time), Inl e)
                      | Inr u \<Rightarrow> ((fst p2, \<lfloor>elapsed_time / 10\<rfloor>), Inr ()))
             else ((fst p1, last_ping_time), Inr ()))"

text \<open>
  \<open>publish\<close> with the puts of other threads that land between its two queue writes:
  the check, the put of the message, the other puts, the put of the sentinel for a
  closing event, and the test of the stop flag.
\<close>

definition publish_interleaved ::
  "redis \<Rightarrow> put list \<Rightarrow> queue_manager \<Rightarrow> app_queue_event \<Rightarrow> publish_from
     \<Rightarrow> queue_manager \<times> (error + unit)" where
  "publish_interleaved r others m e pub_from =
     (case check_for_sqlalchemy_models (model_dump e) of
        Inl err \<Rightarrow> (m, Inl err)
      | Inr u \<Rightarrow>
          (let message = construct_queue_message m e;
               m1 = deliver others (m\<lparr>q := q m @ [Some message]\<rparr>);
               m2 = (if closes_queue e then stop_listen m1 else m1)
           in if pub_from = APPLICATION_MANAGER \<and> is_stopped r m2
              then (m2, Inl GenerateTaskStoppedError)
              else (m2, Inr ())))"

text \<open>The \<open>finally\<close> block with the puts of other threads that land inside it.\<close>

definition listen_finally_interleaved ::
  "nat \<Rightarrow> interleaved_tick \<Rightarrow> queue_manager \<Rightarrow> int
     \<Rightarrow> (queue_manager \<times> int) \<times> (error + unit)" where
  "listen_finally_interleaved listen_timeout t m last_ping_time =
     (let elapsed_time = now t;
          p1 = (if elapsed_time \<ge> real listen_timeout \<or> is_stopped (store t) m
                then publish_interleaved (store t) (between t) m stop_event TASK_PIPELINE
                else (m, Inr ()))
      in case snd p1 of
           Inl e \<Rightarrow> ((fst p1, last_ping_time), Inl e)
         | Inr u \<Rightarrow>
             (let m1 = deliver (before_ping t) (fst p1)
              in if \<lfloor>elapsed_time / 10\<rfloor> > last_ping_time
                 then (let p2 = publish (store t) m1 ping_event TASK_PIPELINE
                       in case snd p2 of
                            Inl e \<Rightarrow> ((fst p2, last_ping_time), Inl e)
                          | Inr u \<Rightarrow> ((fst p2, \<lfloor>elapsed_time / 10\<rfloor>), Inr ()))
                 else ((m1, last_ping_time), Inr ())))"

text \<open>
  How a call of \<open>listen\<close> ends: the loop was left by \<open>break\<close>, an exception left the
  generator, or the schedule of ticks ended with the generator still in its loop.
\<close>

datatype listen_end = Returned | Raised error | Pending

text \<open>
  The generator over a schedule of ticks: the messages it yields, in order, and how it
  ends. An empty queue is \<open>queue.Empty\<close> and \<open>continue\<close>; the sentinel is \<open>break\<close>; the
  \<open>finally\<close> block runs in all three cases, after the \<open>yield\<close> in the third.
\<close>

fun listen ::
  "nat \<Rightarrow> interleaved_tick list \<Rightarrow> queue_manager \<Rightarrow> int
     \<Rightarrow> message_queue_message list \<times> listen_end" where
  "listen listen_timeout [] m last_ping_time = ([], Pending)"
| "listen listen_timeout (t # ts) m last_ping_time =
     (let m1 = deliver (arrivals t) m
      in case q m1 of
           [] \<Rightarrow>
             (let m2 = deliver (suspended t) m1
              in case listen_finally_interleaved listen_timeout t m2 last_ping_time of
                   ((m3, lp), Inl e) \<Rightarrow> ([], Raised e)
                 | ((m3, lp), Inr u) \<Rightarrow> listen listen_timeout ts m3 lp)
         | None # rest \<Rightarrow>
             (let m2 = deliver (suspended t) (m1\<lparr>q := rest\<rparr>)
              in case listen_finally_interleaved listen_timeout t m2 last_ping_time of
                   ((m3, lp), Inl e) \<Rightarrow> ([], Raised e)
                 | ((m3, lp), Inr u) \<Rightarrow> ([], Returned))
         | Some message # rest \<Rightarrow>
             (let m2 = deliver (suspended t) (m1\<lparr>q := rest\<rparr>)
              in case listen_finally_interleaved listen_timeout t m2 last_ping_time of
                   ((m3, lp), Inl e) \<Rightarrow> ([message], Raised e)
                 | ((m3, lp), Inr u) \<Rightarrow>
                     (let r = listen listen_timeout ts m3 lp
                      in (message # fst r, snd r))))"

text \<open>
  The spec's terminal events (graph run succeeded, failed, stop) as queue events.
\<close>

definition terminal_event :: "app_queue_event \<Rightarrow> bool" where
  "terminal_event e \<longleftrightarrow>
     event_class e \<in> {QueueWorkflowSucceededEvent, QueueWorkflowFailedEvent, QueueStopEvent}"

section \<open>Live model references in event data\<close>

text \<open>
  The spec's words, "a live ORM model reference present anywhere in it": through every
  container, keys included.
\<close>

fun contains_model :: "pyval \<Rightarrow> bool" where
  "contains_model (PObj n meta sa) = (meta \<or> sa)"
| "contains_model (PList xs) = list_ex contains_model xs"
| "contains_model (PTuple xs) = list_ex contains_model xs"
| "contains_model (PSet xs) = list_ex contains_model xs"
| "contains_model (PDict kvs) =
     list_ex (\<lambda>kv. contains_model (fst kv) \<or> contains_model (snd kv)) kvs"
| "contains_model v = False"

text \<open>A model reference reachable through dictionary values and list elements only.\<close>

fun model_reachable :: "pyval \<Rightarrow> bool" where
  "model_reachable (PObj n meta sa) = (meta \<or> sa)"
| "model_reachable (PList xs) = list_ex model_reachable xs"
| "model_reachable (PDict kvs) = list_ex (\<lambda>kv. model_reachable (snd kv)) kvs"
| "model_reachable v = False"

section \<open>Workflow graph configurations\<close>

text \<open>
  A graph configuration is the dictionary that \<open>json.loads\<close> made of the stored graph:
  its values are JSON values. A number stands for its value, whether Python holds it as
  an \<open>int\<close> or as a finite \<open>float\<close>.
\<close>

datatype jval =
    JNull
  | JBool bool
  | JNum real
  | JStr string
  | JList "jval list"
  | JDict "(string \<times> jval) list"

type_synonym graph_config = "(string \<times> jval) list"

text \<open>
  Python's \<open>==\<close> on such values: \<open>True == 1\<close> and \<open>False == 0\<close>, lists are compared
  element by element, dictionaries key by key whatever the order of their items.
\<close>

fun py_eq :: "jval \<Rightarrow> jval \<Rightarrow> bool"
  and py_eq_list :: "jval list \<Rightarrow> jval list \<Rightarrow> bool"
  and py_eq_items :: "(string \<times> jval) list \<Rightarrow> (string \<times> jval) list \<Rightarrow> bool"
  and py_eq_item :: "string \<Rightarrow> jval \<Rightarrow> (string \<times> jval) list \<Rightarrow> bool" where
  "py_eq JNull JNull = True"
| "py_eq (JBool a) (JBool b) = (a = b)"
| "py_eq (JBool a) (JNum y) = (y = (if a then 1 else 0))"
| "py_eq (JNum x) (JBool b) = (x = (if b then 1 else 0))"
| "py_eq (JNum x) (JNum y) = (x = y)"
| "py_eq (JStr s) (JStr t) = (s = t)"
| "py_eq (JList xs) (JList ys) = py_eq_list xs ys"
| "py_eq (JDict d) (JDict d') = (length d = length d' \<and> py_eq_items d d')"
| "py_eq v w = False"
| "py_eq_list [] [] = True"
| "py_eq_list (x # xs) (y # ys) = (py_eq x y \<and> py_eq_list xs ys)"
| "py_eq_list xs ys = False"
| "py_eq_items [] d' = True"
| "py_eq_items (kv # kvs) d' = (py_eq_item (fst kv) (snd kv) d' \<and> py_eq_items kvs d')"
| "py_eq_item k v [] = False"
| "py_eq_item k v (kw # d') = (if k = fst kw then py_eq v (snd kw) else py_eq_item k v d')"

text \<open>\<open>x in ys\<close> for a list \<open>ys\<close>.\<close>

definition py_in :: "jval \<Rightarrow> jval list \<Rightarrow> bool" where
  "py_in x ys = list_ex (py_eq x) ys"

text \<open>
  \<open>x.get(k, default)\<close>: defined for a dictionary, an \<open>AttributeError\<close> for every other
  JSON value. \<open>d[k] = v\<close> replaces the value of a key that is there and adds a new key at
  the end.
\<close>

fun py_get :: "jval \<Rightarrow> string \<Rightarrow> jval \<Rightarrow> error + jval" where
  "py_get (JDict d) k dflt = Inr (case map_of d k of None \<Rightarrow> dflt | Some v \<Rightarrow> v)"
| "py_get v k dflt = Inl AttributeError"

definition dict_get :: "graph_config \<Rightarrow> string \<Rightarrow> jval" where
  "dict_get d k = (case map_of d k of None \<Rightarrow> JNull | Some v \<Rightarrow> v)"

fun dict_set :: "string \<Rightarrow> jval \<Rightarrow> graph_config \<Rightarrow> graph_config" where
  "dict_set k v [] = [(k, v)]"
| "dict_set k v (kw # d) = (if fst kw = k then (k, v) # d else kw # dict_set k v d)"

fun is_list :: "jval \<Rightarrow> bool" where
  "is_list (JList xs) = True"
| "is_list v = False"

fun list_items :: "jval \<Rightarrow> jval list" where
  "list_items (JList xs) = xs"
| "list_items v = []"

text \<open>
  A list comprehension whose condition or expression may raise: the first exception ends
  it.
\<close>

fun filter_raise :: "('a \<Rightarrow> error + bool) \<Rightarrow> 'a list \<Rightarrow> error + 'a list" where
  "filter_raise p [] = Inr []"
| "filter_raise p (x # xs) =
     (case p x of
        Inl e \<Rightarrow> Inl e
      | Inr b \<Rightarrow>
          (case filter_raise p xs of
             Inl e \<Rightarrow> Inl e
           | Inr ys \<Rightarrow> Inr (if b then x # ys else ys)))"

fun map_raise :: "('a \<Rightarrow> error + 'b) \<Rightarrow> 'a list \<Rightarrow> error + 'b list" where
  "map_raise f [] = Inr []"
| "map_raise f (x # xs) =
     (case f x of
        Inl e \<Rightarrow> Inl e
      | Inr y \<Rightarrow>
          (case map_raise f xs of
             Inl e \<Rightarrow> Inl e
           | Inr ys \<Rightarrow> Inr (y # ys)))"

text \<open>
  \<open>WorkflowBasedAppRunner._init_graph\<close>. The class \<open>Graph\<close> is not among the sources:
  \<open>Graph.init\<close> is the parameter \<open>Graph_init\<close>, given the configuration and the optional
  \<open>root_node_id\<close>; it may raise, return a graph, or return a value that is false in
  \<open>if not graph\<close> (\<open>None\<close>).
\<close>

definition init_graph ::
  "(graph_config \<Rightarrow> string option \<Rightarrow> error + 'g option) \<Rightarrow> graph_config \<Rightarrow> error + 'g" where
  "init_graph Graph_init graph_config =
     (if map_of graph_config ''nodes'' = None \<or> map_of graph_config ''edges'' = None
      then Inl (ValueError ''nodes or edges not found in workflow graph'')
      else if \<not> is_list (dict_get graph_config ''nodes'')
      then Inl (ValueError ''nodes in workflow graph must be a list'')
      else if \<not> is_list (dict_get graph_config ''edges'')
      then Inl (ValueError ''edges in workflow graph must be a list'')
      else (case Graph_init graph_config None of
              Inl e \<Rightarrow> Inl e
            | Inr None \<Rightarrow> Inl (ValueError ''graph not found in workflow'')
            | Inr (Some graph) \<Rightarrow> Inr graph))"

text \<open>
  The condition of the node filter of \<open>_get_graph_and_variable_pool_of_single_iteration\<close>:
  \<open>node.get("id") == node_id or node.get("data", {}).get("iteration_id", "") == node_id\<close>,
  the right operand evaluated only when the left one is false.
\<close>

definition node_in_iteration :: "string \<Rightarrow> jval \<Rightarrow> error + bool" where
  "node_in_iteration node_id node =
     (case py_get node ''id'' JNull of
        Inl e \<Rightarrow> Inl e
      | Inr i \<Rightarrow>
          if py_eq i (JStr node_id) then Inr True
          else (case py_get node ''data'' (JDict []) of
                  Inl e \<Rightarrow> Inl e
                | Inr d \<Rightarrow>
                    (case py_get d ''iteration_id'' (JStr []) of
                       Inl e \<Rightarrow> Inl e
                     | Inr it \<Rightarrow> Inr (py_eq it (JStr node_id)))))"

text \<open>
  The condition of the edge filter:
  \<open>(edge.get("source") is None or edge.get("source") in node_ids) and
   (edge.get("target") is None or edge.get("target") in node_ids)\<close>.
\<close>

definition edge_in_iteration :: "jval list \<Rightarrow> jval \<Rightarrow> error + bool" where
  "edge_in_iteration node_ids edge =
     (case py_get edge ''source'' JNull of
        Inl e \<Rightarrow> Inl e
      | Inr s \<Rightarrow>
          if s = JNull \<or> py_in s node_ids
          then (case py_get edge ''target'' JNull of
                  Inl e \<Rightarrow> Inl e
                | Inr t \<Rightarrow> Inr (t = JNull \<or> py_in t node_ids))
          else Inr False)"

text \<open>
  The first part of \<open>_get_graph_and_variable_pool_of_single_iteration\<close>, up to the
  configuration that is handed to \<open>Graph.init\<close>: the checks, the two filters and the two
  assignments to \<open>graph_config\<close>.
\<close>

definition single_iteration_graph_config :: "graph_config \<Rightarrow> string \<Rightarrow> error + graph_config" where
  "single_iteration_graph_config graph_config node_id =
     (if graph_config = [] then Inl (ValueError ''workflow graph not found'')
      else if map_of graph_config ''nodes'' = None \<or> map_of graph_config ''edges'' = None
      then Inl (ValueError ''nodes or edges not found in workflow graph'')
      else if \<not> is_list (dict_get graph_config ''nodes'')
      then Inl (ValueError ''nodes in workflow graph must be a list'')
      else if \<not> is_list (dict_get graph_config ''edges'')
      then Inl (ValueError ''edges in workflow graph must be a list'')
      else (case filter_raise (node_in_iteration node_id)
                   (list_items (dict_get graph_config ''nodes'')) of
              Inl e \<Rightarrow> Inl e
            | Inr node_configs \<Rightarrow>
                (let graph_config1 = dict_set ''nodes'' (JList node_configs) graph_config
                 in case map_raise (\<lambda>node. py_get node ''id'' JNull) node_configs of
                      Inl e \<Rightarrow> Inl e
                    | Inr node_ids \<Rightarrow>
                        (case filter_raise (edge_in_iteration node_ids)
                               (list_items (dict_get graph_config1 ''edges'')) of
                           Inl e \<Rightarrow> Inl e
                         | Inr edge_configs \<Rightarrow>
                             Inr (dict_set ''edges'' (JList edge_configs) graph_config1)))))"

text \<open>The enumeration \<open>NodeType\<close>, and the name under which a member is shown.\<close>

datatype node_type =
    START | END | ANSWER | LLM | KNOWLEDGE_RETRIEVAL | IF_ELSE | CODE | TEMPLATE_TRANSFORM
  | QUESTION_CLASSIFIER | HTTP_REQUEST | TOOL | VARIABLE_AGGREGATOR | VARIABLE_ASSIGNER
  | LOOP | ITERATION | ITERATION_START | PARAMETER_EXTRACTOR | CONVERSATION_VARIABLE_ASSIGNER

fun node_type_name :: "node_type \<Rightarrow> string" where
  "node_type_name START = ''NodeType.START''"
| "node_type_name END = ''NodeType.END''"
| "node_type_name ANSWER = ''NodeType.ANSWER''"
| "node_type_name LLM = ''NodeType.LLM''"
| "node_type_name KNOWLEDGE_RETRIEVAL = ''NodeType.KNOWLEDGE_RETRIEVAL''"
| "node_type_name IF_ELSE = ''NodeType.IF_ELSE''"
| "node_type_name CODE = ''NodeType.CODE''"
| "node_type_name TEMPLATE_TRANSFORM = ''NodeType.TEMPLATE_TRANSFORM''"
| "node_type_name QUESTION_CLASSIFIER = ''NodeType.QUESTION_CLASSIFIER''"
| "node_type_name HTTP_REQUEST = ''NodeType.HTTP_REQUEST''"
| "node_type_name TOOL = ''NodeType.TOOL''"
| "node_type_name VARIABLE_AGGREGATOR = ''NodeType.VARIABLE_AGGREGATOR''"
| "node_type_name VARIABLE_ASSIGNER = ''NodeType.VARIABLE_ASSIGNER''"
| "node_type_name LOOP = ''NodeType.LOOP''"
| "node_type_name ITERATION = ''NodeType.ITERATION''"
| "node_type_name ITERATION_START = ''NodeType.ITERATION_START''"
| "node_type_name PARAMETER_EXTRACTOR = ''NodeType.PARAMETER_EXTRACTOR''"
| "node_type_name CONVERSATION_VARIABLE_ASSIGNER = ''NodeType.CONVERSATION_VARIABLE_ASSIGNER''"

text \<open>
  The values of the members, the members in the order of their declaration, and
  \<open>NodeType.value_of\<close>: the first member whose value equals the given one.
\<close>

fun node_type_value :: "node_type \<Rightarrow> string" where
  "node_type_value START = ''start''"
| "node_type_value END = ''end''"
| "node_type_value ANSWER = ''answer''"
| "node_type_value LLM = ''llm''"
| "node_type_value KNOWLEDGE_RETRIEVAL = ''knowledge-retrieval''"
| "node_type_value IF_ELSE = ''if-else''"
| "node_type_value CODE = ''code''"
| "node_type_value TEMPLATE_TRANSFORM = ''template-transform''"
| "node_type_value QUESTION_CLASSIFIER = ''question-classifier''"
| "node_type_value HTTP_REQUEST = ''http-request''"
| "node_type_value TOOL = ''tool''"
| "node_type_value VARIABLE_AGGREGATOR = ''variable-aggregator''"
| "node_type_value VARIABLE_ASSIGNER = ''variable-assigner''"
| "node_type_value LOOP = ''loop''"
| "node_type_value ITERATION = ''iteration''"
| "node_type_value ITERATION_START = ''iteration-start''"
| "node_type_value PARAMETER_EXTRACTOR = ''parameter-extractor''"
| "node_type_value CONVERSATION_VARIABLE_ASSIGNER = ''assigner''"

definition node_types :: "node_type list" where
  "node_types =
     [START, END, ANSWER, LLM, KNOWLEDGE_RETRIEVAL, IF_ELSE, CODE, TEMPLATE_TRANSFORM,
      QUESTION_CLASSIFIER, HTTP_REQUEST, TOOL, VARIABLE_AGGREGATOR, VARIABLE_ASSIGNER,
      LOOP, ITERATION, ITERATION_START, PARAMETER_EXTRACTOR, CONVERSATION_VARIABLE_ASSIGNER]"

definition value_of :: "jval \<Rightarrow> error + node_type" where
  "value_of v =
     (case find (\<lambda>t. py_eq (JStr (node_type_value t)) v) node_types of
        Some t \<Rightarrow> Inr t
      | None \<Rightarrow> Inl InvalidNodeTypeValue)"

text \<open>
  The search for the iteration node in \<open>node_configs\<close>: the first node whose id is
  \<open>node_id\<close>.
\<close>

fun find_iteration_node :: "string \<Rightarrow> jval list \<Rightarrow> error + jval option" where
  "find_iteration_node node_id [] = Inr None"
| "find_iteration_node node_id (node # nodes) =
     (case py_get node ''id'' JNull of
        Inl e \<Rightarrow> Inl e
      | Inr i \<Rightarrow> if py_eq i (JStr node_id) then Inr (Some node)
                 else find_iteration_node node_id nodes)"

text \<open>
  \<open>_get_graph_and_variable_pool_of_single_iteration\<close>: the restricted configuration,
  the graph built from it with \<open>node_id\<close> as root, the configuration of the iteration
  node and its node type. The rest of the source function, from the look-up of the node
  class to \<open>mapping_user_inputs_to_variable_pool\<close>, builds the variable pool with
  modules that are not among the sources: it is the parameter \<open>variable_pool_of\<close>,
  given the configuration of the iteration node and the node type, which may raise.
\<close>

definition get_graph_and_variable_pool_of_single_iteration ::
  "(graph_config \<Rightarrow> string option \<Rightarrow> error + 'g option) \<Rightarrow> (jval \<Rightarrow> node_type \<Rightarrow> error + 'p)
     \<Rightarrow> graph_config \<Rightarrow> string \<Rightarrow> error + ('g \<times> 'p)" where
  "get_graph_and_variable_pool_of_single_iteration Graph_init variable_pool_of graph_config node_id =
     (case single_iteration_graph_config graph_config node_id of
        Inl e \<Rightarrow> Inl e
      | Inr graph_config2 \<Rightarrow>
          (case Graph_init graph_config2 (Some node_id) of
             Inl e \<Rightarrow> Inl e
           | Inr None \<Rightarrow> Inl (ValueError ''graph not found in workflow'')
           | Inr (Some graph) \<Rightarrow>
               (case find_iteration_node node_id (list_items (dict_get graph_config2 ''nodes'')) of
                  Inl e \<Rightarrow> Inl e
                | Inr None \<Rightarrow> Inl (ValueError ''iteration node id not found in workflow graph'')
                | Inr (Some iteration_node_config) \<Rightarrow>
                    (case py_get iteration_node_config ''data'' (JDict []) of
                       Inl e \<Rightarrow> Inl e
                     | Inr data \<Rightarrow>
                         (case py_get data ''type'' JNull of
                            Inl e \<Rightarrow> Inl e
                          | Inr type_value \<Rightarrow>
                              (case value_of type_value of
                                 Inl e \<Rightarrow> Inl e
                               | Inr ntype \<Rightarrow>
                                   (case variable_pool_of iteration_node_config ntype of
                                      Inl e \<Rightarrow> Inl e
                                    | Inr variable_pool \<Rightarrow> Inr (graph, variable_pool))))))))"

text \<open>
  The claim's words for the restricted graph: a node is retained when its id equals
  \<open>node_id\<close> or its data declares membership (its \<open>iteration_id\<close>, the empty string
  when there is none, equals \<open>node_id\<close>); an endpoint of an edge survives when it is
  among the ids of the retained nodes.
\<close>

definition node_id_of :: "jval \<Rightarrow> jval" where
  "node_id_of node = (case node of JDict d \<Rightarrow> dict_get d ''id'' | _ \<Rightarrow> JNull)"

definition declares_membership :: "string \<Rightarrow> jval \<Rightarrow> bool" where
  "declares_membership node_id node =
     (case node of
        JDict d \<Rightarrow>
          (case (case map_of d ''data'' of None \<Rightarrow> JDict [] | Some x \<Rightarrow> x) of
             JDict dd \<Rightarrow>
               (case map_of dd ''iteration_id'' of None \<Rightarrow> JStr [] | Some v \<Rightarrow> v)
                 = JStr node_id
           | _ \<Rightarrow> False)
      | _ \<Rightarrow> False)"

definition node_retained :: "string \<Rightarrow> jval \<Rightarrow> bool" where
  "node_retained node_id node \<longleftrightarrow>
     node_id_of node = JStr node_id \<or> declares_membership node_id node"

definition endpoint :: "string \<Rightarrow> jval \<Rightarrow> jval" where
  "endpoint k edge = (case edge of JDict d \<Rightarrow> dict_get d k | _ \<Rightarrow> JNull)"

definition both_endpoints_survive :: "jval list \<Rightarrow> jval \<Rightarrow> bool" where
  "both_endpoints_survive node_ids edge \<longleftrightarrow>
     py_in (endpoint ''source'' edge) node_ids \<and> py_in (endpoint ''target'' edge) node_ids"

definition endpoints_absent_or_surviving :: "jval list \<Rightarrow> jval \<Rightarrow> bool" where
  "endpoints_absent_or_surviving node_ids edge \<longleftrightarrow>
     (endpoint ''source'' edge = JNull \<or> py_in (endpoint ''source'' edge) node_ids) \<and>
     (endpoint ''target'' edge = JNull \<or> py_in (endpoint ''target'' edge) node_ids)"

section \<open>Graph engine events and their conversion to queue events\<close>

text \<open>
  \<open>NodeRunResult\<close>, with the fields that \<open>_handle_event\<close> reads. An optional dictionary
  is a Python value (\<open>PNone\<close> or a \<open>PDict\<close>).
\<close>

record node_run_result =
  inputs :: pyval
  process_data :: pyval
  outputs :: pyval
  metadata :: pyval
  error :: "string option"

text \<open>
  Modelled from the spec: the class \<open>RouteNodeState\<close> is not among the sources. The spec
  describes it as the record of one node execution with \<open>start_at\<close>, a result and a run
  index; the fields here are those under the names by which \<open>_handle_event\<close> reads them.
  \<open>start_at\<close> is a datetime, kept as a Python value.
\<close>

record route_node_state =
  start_at :: pyval
  index :: int
  node_run_result :: "node_run_result option"

text \<open>
  \<open>BaseNodeEvent\<close>, \<open>BaseParallelBranchEvent\<close> and \<open>BaseIterationEvent\<close>. The field \<open>id\<close>
  is \<open>event_id\<close> here; the fields of the second and third class carry the prefixes
  \<open>branch_\<close> and \<open>iter_\<close> where their name is also a field of the first.
\<close>

record base_node_event =
  event_id :: string
  node_id :: string
  node_type :: node_type
  node_data :: pyval
  route_node_state :: route_node_state
  parallel_id :: "string option"
  parallel_start_node_id :: "string option"
  parent_parallel_id :: "string option"
  parent_parallel_start_node_id :: "string option"
  in_iteration_id :: "string option"

record base_parallel_branch_event =
  branch_parallel_id :: string
  branch_parallel_start_node_id :: string
  branch_parent_parallel_id :: "string option"
  branch_parent_parallel_start_node_id :: "string option"
  branch_in_iteration_id :: "string option"

record base_iteration_event =
  iteration_id :: string
  iteration_node_id :: string
  iteration_node_type :: node_type
  iteration_node_data :: pyval
  iter_parallel_id :: "string option"
  iter_parallel_start_node_id :: "string option"
  iter_parent_parallel_id :: "string option"
  iter_parent_parallel_start_node_id :: "string option"

text \<open>
  The concrete classes of \<open>GraphEngineEvent\<close>, each with its base record and then its own
  fields in the order of their declaration.
\<close>

datatype graph_engine_event =
    GraphRunStartedEvent
  | GraphRunSucceededEvent pyval
  | GraphRunFailedEvent string
  | NodeRunStartedEvent base_node_event "string option"
  | NodeRunStreamChunkEvent base_node_event string "string list option"
  | NodeRunRetrieverResourceEvent base_node_event pyval string
  | NodeRunSucceededEvent base_node_event
  | NodeRunFailedEvent base_node_event string
  | ParallelBranchRunStartedEvent base_parallel_branch_event
  | ParallelBranchRunSucceededEvent base_parallel_branch_event
  | ParallelBranchRunFailedEvent base_parallel_branch_event string
  | IterationRunStartedEvent base_iteration_event pyval pyval pyval "string option"
  | IterationRunNextEvent base_iteration_event int pyval
  | IterationRunSucceededEvent base_iteration_event pyval pyval pyval pyval int
  | IterationRunFailedEvent base_iteration_event pyval pyval pyval pyval int string

text \<open>
  What \<open>_handle_event\<close> reads of \<open>workflow_entry\<close>:
  \<open>workflow_entry.graph_engine.graph_runtime_state\<close> and its \<open>node_run_steps\<close>.
\<close>

record workflow_entry =
  graph_runtime_state :: pyval
  node_run_steps :: int

definition opt_str :: "string option \<Rightarrow> pyval" where
  "opt_str x = (case x of None \<Rightarrow> PNone | Some s \<Rightarrow> PStr s)"

definition opt_selector :: "string list option \<Rightarrow> pyval" where
  "opt_selector x = (case x of None \<Rightarrow> PNone | Some xs \<Rightarrow> PList (map PStr xs))"

text \<open>
  \<open>node_run_result.f if node_run_result else {}\<close>, and the error of a failed node,
  \<open>"Unknown error"\<close> when there is no result or its error is \<open>None\<close> or empty.
\<close>

definition result_field :: "(node_run_result \<Rightarrow> pyval) \<Rightarrow> route_node_state \<Rightarrow> pyval" where
  "result_field f s = (case node_run_result s of None \<Rightarrow> PDict [] | Some r \<Rightarrow> f r)"

definition result_error :: "route_node_state \<Rightarrow> string" where
  "result_error s =
     (case node_run_result s of
        None \<Rightarrow> ''Unknown error''
      | Some r \<Rightarrow>
          (case error r of
             None \<Rightarrow> ''Unknown error''
           | Some msg \<Rightarrow> if msg = [] then ''Unknown error'' else msg))"

text \<open>
  The queue event that \<open>_handle_event\<close> constructs for an engine event, branch by
  branch, with the keyword arguments in the order of the source.
\<close>

fun queue_event_of :: "workflow_entry \<Rightarrow> graph_engine_event \<Rightarrow> app_queue_event" where
  "queue_event_of we GraphRunStartedEvent =
     \<lparr>event_class = QueueWorkflowStartedEvent,
      kwargs = [(''graph_runtime_state'', graph_runtime_state we)]\<rparr>"
| "queue_event_of we (GraphRunSucceededEvent outs) =
     \<lparr>event_class = QueueWorkflowSucceededEvent, kwargs = [(''outputs'', outs)]\<rparr>"
| "queue_event_of we (GraphRunFailedEvent err) =
     \<lparr>event_class = QueueWorkflowFailedEvent, kwargs = [(''error'', PStr err)]\<rparr>"
| "queue_event_of we (NodeRunStartedEvent event predecessor_node_id) =
     \<lparr>event_class = QueueNodeStartedEvent,
      kwargs =
        [(''node_execution_id'', PStr (event_id event)),
         (''node_id'', PStr (node_id event)),
         (''node_type'', PEnum (node_type_name (node_type event))),
         (''node_data'', node_data event),
         (''parallel_id'', opt_str (parallel_id event)),
         (''parallel_start_node_id'', opt_str (parallel_start_node_id event)),
         (''parent_parallel_id'', opt_str (parent_parallel_id event)),
         (''parent_parallel_start_node_id'', opt_str (parent_parallel_start_node_id event)),
         (''start_at'', start_at (route_node_state event)),
         (''node_run_index'', PInt (index (route_node_state event))),
         (''predecessor_node_id'', opt_str predecessor_node_id),
         (''in_iteration_id'', opt_str (in_iteration_id event))]\<rparr>"
| "queue_event_of we (NodeRunSucceededEvent event) =
     \<lparr>event_class = QueueNodeSucceededEvent,
      kwargs =
        [(''node_execution_id'', PStr (event_id event)),
         (''node_id'', PStr (node_id event)),
         (''node_type'', PEnum (node_type_name (node_type event))),
         (''node_data'', node_data event),
         (''parallel_id'', opt_str (parallel_id event)),
         (''parallel_start_node_id'', opt_str (parallel_start_node_id event)),
         (''parent_parallel_id'', opt_str (parent_parallel_id event)),
         (''parent_parallel_start_node_id'', opt_str (parent_parallel_start_node_id event)),
         (''start_at'', start_at (route_node_state event)),
         (''inputs'', result_field inputs (route_node_state event)),
         (''process_data'', result_field process_data (route_node_state event)),
         (''outputs'', result_field outputs (route_node_state event)),
         (''execution_metadata'', result_field metadata (route_node_state event)),
         (''in_iteration_id'', opt_str (in_iteration_id event))]\<rparr>"
| "queue_event_of we (NodeRunFailedEvent event err) =
     \<lparr>event_class = QueueNodeFailedEvent,
      kwargs =
        [(''node_execution_id'', PStr (event_id event)),
         (''node_id'', PStr (node_id event)),
         (''node_type'', PEnum (node_type_name (node_type event))),
         (''node_data'', node_data event),
         (''parallel_id'', opt_str (parallel_id event)),
         (''parallel_start_node_id'', opt_str (parallel_start_node_id event)),
         (''parent_parallel_id'', opt_str (parent_parallel_id event)),
         (''parent_parallel_start_node_id'', opt_str (parent_parallel_start_node_id event)),
         (''start_at'', start_at (route_node_state event)),
         (''inputs'', result_field inputs (route_node_state event)),
         (''process_data'', result_field process_data (route_node_state event)),
         (''outputs'', result_field outputs (route_node_state event)),
         (''error'', PStr (result_error (route_node_state event))),
         (''in_iteration_id'', opt_str (in_iteration_id event))]\<rparr>"
| "queue_event_of we (NodeRunStreamChunkEvent event chunk_content from_variable_selector) =
     \<lparr>event_class = QueueTextChunkEvent,
      kwargs =
        [(''text'', PStr chunk_content),
         (''from_variable_selector'', opt_selector from_variable_selector),
         (''in_iteration_id'', opt_str (in_iteration_id event))]\<rparr>"
| "queue_event_of we (NodeRunRetrieverResourceEvent event retriever_resources context) =
     \<lparr>event_class = QueueRetrieverResourcesEvent,
      kwargs =
        [(''retriever_resources'', retriever_resources),
         (''in_iteration_id'', opt_str (in_iteration_id event))]\<rparr>"
| "queue_event_of we (ParallelBranchRunStartedEvent event) =
     \<lparr>event_class = QueueParallelBranchRunStartedEvent,
      kwargs =
        [(''parallel_id'', PStr (branch_parallel_id event)),
         (''parallel_start_node_id'', PStr (branch_parallel_start_node_id event)),
         (''parent_parallel_id'', opt_str (branch_parent_parallel_id event)),
         (''parent_parallel_start_node_id'', opt_str (branch_parent_parallel_start_node_id event)),
         (''in_iteration_id'', opt_str (branch_in_iteration_id event))]\<rparr>"
| "queue_event_of we (ParallelBranchRunSucceededEvent event) =
     \<lparr>event_class = QueueParallelBranchRunSucceededEvent,
      kwargs =
        [(''parallel_id'', PStr (branch_parallel_id event)),
         (''parallel_start_node_id'', PStr (branch_parallel_start_node_id event)),
         (''parent_parallel_id'', opt_str (branch_parent_parallel_id event)),
         (''parent_parallel_start_node_id'', opt_str (branch_parent_parallel_start_node_id event)),
         (''in_iteration_id'', opt_str (branch_in_iteration_id event))]\<rparr>"
| "queue_event_of we (ParallelBranchRunFailedEvent event err) =
     \<lparr>event_class = QueueParallelBranchRunFailedEvent,
      kwargs =
        [(''parallel_id'', PStr (branch_parallel_id event)),
         (''parallel_start_node_id'', PStr (branch_parallel_start_node_id event)),
         (''parent_parallel_id'', opt_str (branch_parent_parallel_id event)),
         (''parent_parallel_start_node_id'', opt_str (branch_parent_parallel_start_node_id event)),
         (''in_iteration_id'', opt_str (branch_in_iteration_id event)),
         (''error'', PStr err)]\<rparr>"
| "queue_event_of we (IterationRunStartedEvent event started ins meta predecessor_node_id) =
     \<lparr>event_class = QueueIterationStartEvent,
      kwargs =
        [(''node_execution_id'', PStr (iteration_id event)),
         (''node_id'', PStr (iteration_node_id event)),
         (''node_type'', PEnum (node_type_name (iteration_node_type event))),
         (''node_data'', iteration_node_data event),
         (''parallel_id'', opt_str (iter_parallel_id event)),
         (''parallel_start_node_id'', opt_str (iter_parallel_start_node_id event)),
         (''parent_parallel_id'', opt_str (iter_parent_parallel_id event)),
         (''parent_parallel_start_node_id'', opt_str (iter_parent_parallel_start_node_id event)),
         (''start_at'', started),
         (''node_run_index'', PInt (node_run_steps we)),
         (''inputs'', ins),
         (''predecessor_node_id'', opt_str predecessor_node_id),
         (''metadata'', meta)]\<rparr>"
| "queue_event_of we (IterationRunNextEvent event idx pre_iteration_output) =
     \<lparr>event_class = QueueIterationNextEvent,
      kwargs =
        [(''node_execution_id'', PStr (iteration_id event)),
         (''node_id'', PStr (iteration_node_id event)),
         (''node_type'', PEnum (node_type_name (iteration_node_type event))),
         (''node_data'', iteration_node_data event),
         (''parallel_id'', opt_str (iter_parallel_id event)),
         (''parallel_start_node_id'', opt_str (iter_parallel_start_node_id event)),
         (''parent_parallel_id'', opt_str (iter_parent_parallel_id event)),
         (''parent_parallel_start_node_id'', opt_str (iter_parent_parallel_start_node_id event)),
         (''index'', PInt idx),
         (''node_run_index'', PInt (node_run_steps we)),
         (''output'', pre_iteration_output)]\<rparr>"
| "queue_event_of we (IterationRunSucceededEvent event started ins outs meta steps) =
     \<lparr>event_class = QueueIterationCompletedEvent,
      kwargs =
        [(''node_execution_id'', PStr (iteration_id event)),
         (''node_id'', PStr (iteration_node_id event)),
         (''node_type'', PEnum (node_type_name (iteration_node_type event))),
         (''node_data'', iteration_node_data event),
         (''parallel_id'', opt_str (iter_parallel_id event)),
         (''parallel_start_node_id'', opt_str (iter_parallel_start_node_id event)),
         (''parent_parallel_id'', opt_str (iter_parent_parallel_id event)),
         (''parent_parallel_start_node_id'', opt_str (iter_parent_parallel_start_node_id event)),
         (''start_at'', started),
         (''node_run_index'', PInt (node_run_steps we)),
         (''inputs'', ins),
         (''outputs'', outs),
         (''metadata'', meta),
         (''steps'', PInt steps),
         (''error'', PNone)]\<rparr>"
| "queue_event_of we (IterationRunFailedEvent event started ins outs meta steps err) =
     \<lparr>event_class = QueueIterationCompletedEvent,
      kwargs =
        [(''node_execution_id'', PStr (iteration_id event)),
         (''node_id'', PStr (iteration_node_id event)),
         (''node_type'', PEnum (node_type_name (iteration_node_type event))),
         (''node_data'', iteration_node_data event),
         (''parallel_id'', opt_str (iter_parallel_id event)),
         (''parallel_start_node_id'', opt_str (iter_parallel_start_node_id event)),
         (''parent_parallel_id'', opt_str (iter_parent_parallel_id event)),
         (''parent_parallel_start_node_id'', opt_str (iter_parent_parallel_start_node_id event)),
         (''start_at'', started),
         (''node_run_index'', PInt (node_run_steps we)),
         (''inputs'', ins),
         (''outputs'', outs),
         (''metadata'', meta),
         (''steps'', PInt steps),
         (''error'', PStr err)]\<rparr>"

text \<open>\<open>_publish_event\<close> and \<open>_handle_event\<close>: the event goes out from \<open>APPLICATION_MANAGER\<close>.\<close>

definition publish_event ::
  "redis \<Rightarrow> queue_manager \<Rightarrow> app_queue_event \<Rightarrow> queue_manager \<times> (error + unit)" where
  "publish_event r m e = publish r m e APPLICATION_MANAGER"

definition handle_event ::
  "redis \<Rightarrow> queue_manager \<Rightarrow> workflow_entry \<Rightarrow> graph_engine_event
     \<Rightarrow> queue_manager \<times> (error + unit)" where
  "handle_event r m we event = publish_event r m (queue_event_of we event)"

text \<open>
  The fields that the spec requires of every node-scoped event, as an event carries
  them (\<open>None\<close> for a field it does not have), and as a \<open>BaseNodeEvent\<close> gives them.
\<close>

definition node_scope_fields :: "string list" where
  "node_scope_fields =
     [''node_execution_id'', ''node_id'', ''node_type'', ''start_at'', ''parallel_id'',
      ''parallel_start_node_id'', ''parent_parallel_id'', ''parent_parallel_start_node_id'',
      ''in_iteration_id'']"

definition carried :: "app_queue_event \<Rightarrow> pyval option list" where
  "carried e = map (map_of (kwargs e)) node_scope_fields"

definition node_scope_of :: "base_node_event \<Rightarrow> pyval list" where
  "node_scope_of event =
     [PStr (event_id event), PStr (node_id event), PEnum (node_type_name (node_type event)),
      start_at (route_node_state event), opt_str (parallel_id event),
      opt_str (parallel_start_node_id event), opt_str (parent_parallel_id event),
      opt_str (parent_parallel_start_node_id event), opt_str (in_iteration_id event)]"

section \<open>Auxiliary notions for the proofs\<close>

text \<open>
  What one successful \<open>_publish\<close> appends to the queue when nothing falls between its
  two writes, and what the \<open>finally\<close> block of \<open>listen\<close> appends when run on its own.
\<close>

definition published :: "queue_manager \<Rightarrow> app_queue_event \<Rightarrow> message_queue_message option list" where
  "published m e =
     Some (construct_queue_message m e) # (if closes_queue e then [None] else [])"

definition finally_items :: "nat \<Rightarrow> tick \<Rightarrow> queue_manager \<Rightarrow> int \<Rightarrow> message_queue_message option list" where
  "finally_items T t m lp =
     (if now t \<ge> real T \<or> is_stopped (store t) m
      then [Some (construct_queue_message m stop_event), None] else []) @
     (if \<lfloor>now t / 10\<rfloor> > lp then [Some (construct_queue_message m ping_event)] else [])"

text \<open>
  The items that a list of puts appends to the queue, and those that the \<open>finally\<close>
  block appends together with the puts that land inside it.
\<close>

fun put_items :: "queue_manager \<Rightarrow> put list \<Rightarrow> message_queue_message option list" where
  "put_items m [] = []"
| "put_items m (Put_message e # ps) =
     (case check_for_sqlalchemy_models (model_dump e) of
        Inl err \<Rightarrow> []
      | Inr u \<Rightarrow> [Some (construct_queue_message m e)]) @ put_items m ps"
| "put_items m (Put_sentinel # ps) = None # put_items m ps"

definition finally_items_interleaved ::
  "nat \<Rightarrow> interleaved_tick \<Rightarrow> queue_manager \<Rightarrow> int \<Rightarrow> message_queue_message option list" where
  "finally_items_interleaved T t m lp =
     (if now t \<ge> real T \<or> is_stopped (store t) m
      then Some (construct_queue_message m stop_event) # put_items m (between t) @ [None]
      else []) @
     put_items m (before_ping t) @
     (if \<lfloor>now t / 10\<rfloor> > lp then [Some (construct_queue_message m ping_event)] else [])"

text \<open>The messages among the items of a queue, in order.\<close>

fun queued :: "message_queue_message option list \<Rightarrow> message_queue_message list" where
  "queued [] = []"
| "queued (None # xs) = queued xs"
| "queued (Some a # xs) = a # queued xs"

text \<open>
  Serialised publishing. A list of puts is \<open>serialised\<close> when it consists of whole
  \<open>publish\<close> calls, one after the other: the put of a closing message is directly
  followed by the put of its sentinel, and there is no other put of a sentinel. A tick
  is serialised when its lists are and no put of another thread lands between the two
  writes of the stop event. A queue is \<open>paired\<close> when its closing messages and its
  sentinels come in such pairs, and \<open>open\<close> when it holds messages only, none of them
  closing: nothing closing has been published. Puts that add no closing message and no
  sentinel keep a queue open.
\<close>

fun serialised :: "put list \<Rightarrow> bool" where
  "serialised [] = True"
| "serialised (Put_sentinel # ps) = False"
| "serialised (Put_message e # ps) =
     (case check_for_sqlalchemy_models (model_dump e) of
        Inl err \<Rightarrow> serialised ps
      | Inr u \<Rightarrow>
          if closes_queue e
          then (case ps of Put_sentinel # ps' \<Rightarrow> serialised ps' | _ \<Rightarrow> False)
          else serialised ps)"

definition serialised_tick :: "interleaved_tick \<Rightarrow> bool" where
  "serialised_tick t \<longleftrightarrow>
     serialised (arrivals t) \<and> serialised (suspended t) \<and> between t = [] \<and>
     serialised (before_ping t)"

fun paired :: "message_queue_message option list \<Rightarrow> bool" where
  "paired [] = True"
| "paired (None # xs) = False"
| "paired (Some a # xs) =
     (if closes_queue (msg_event a)
      then (case xs of None # ys \<Rightarrow> paired ys | _ \<Rightarrow> False)
      else paired xs)"

fun open_queue :: "message_queue_message option list \<Rightarrow> bool" where
  "open_queue [] = True"
| "open_queue (None # xs) = False"
| "open_queue (Some a # xs) = (\<not> closes_queue (msg_event a) \<and> open_queue xs)"

fun no_closing_puts :: "put list \<Rightarrow> bool" where
  "no_closing_puts [] = True"
| "no_closing_puts (Put_sentinel # ps) = False"
| "no_closing_puts (Put_message e # ps) = (\<not> closes_queue e \<and> no_closing_puts ps)"

section \<open>The queue manager: basic facts\<close>

lemma check_eq:
  "check_for_sqlalchemy_models v = (if model_reachable v then Inl (TypeError sqlalchemy_message) else Inr ())"
  "check_values kvs = (if list_ex (\<lambda>kv. model_reachable (snd kv)) kvs then Inl (TypeError sqlalchemy_message) else Inr ())"
  "check_items xs = (if list_ex model_reachable xs then Inl (TypeError sqlalchemy_message) else Inr ())"
  by (induction v and kvs and xs rule: check_for_sqlalchemy_models_check_values_check_items.induct) auto

lemma is_stopped_q [simp]: "is_stopped r (m\<lparr>q := xs\<rparr>) = is_stopped r m"
  by (simp add: is_stopped_def)

lemma construct_queue_message_q [simp]:
  "construct_queue_message (m\<lparr>q := xs\<rparr>) e = construct_queue_message m e"
  by (simp add: construct_queue_message_def)

lemma published_q [simp]: "published (m\<lparr>q := xs\<rparr>) e = published m e"
  by (simp add: published_def)

lemma message_based_publish_eq:
  "message_based_publish r m e pf =
     (m\<lparr>q := q m @ published m e\<rparr>,
      if pf = APPLICATION_MANAGER \<and> is_stopped r m then Inl GenerateTaskStoppedError else Inr ())"
  by (simp add: message_based_publish_def stop_listen_def published_def Let_def)

lemma publish_eq:
  "publish r m e pf =
     (if model_reachable (model_dump e) then (m, Inl (TypeError sqlalchemy_message))
      else (m\<lparr>q := q m @ published m e\<rparr>,
            if pf = APPLICATION_MANAGER \<and> is_stopped r m then Inl GenerateTaskStoppedError
            else Inr ()))"
  by (simp add: publish_def check_eq(1) message_based_publish_eq)

lemma model_dump_stop [simp]: "\<not> model_reachable (model_dump stop_event)"
  by (simp add: model_dump_def stop_event_def)

lemma model_dump_ping [simp]: "\<not> model_reachable (model_dump ping_event)"
  by (simp add: model_dump_def ping_event_def)

lemma closes_stop [simp]: "closes_queue stop_event"
  by (simp add: closes_queue_def stop_event_def)

lemma closes_ping [simp]: "\<not> closes_queue ping_event"
  by (simp add: closes_queue_def ping_event_def)

lemma listen_finally_eq:
  "listen_finally T t m lp =
     ((m\<lparr>q := q m @ finally_items T t m lp\<rparr>,
       if \<lfloor>now t / 10\<rfloor> > lp then \<lfloor>now t / 10\<rfloor> else lp), Inr ())"
  by (simp add: listen_finally_def publish_eq finally_items_def published_def Let_def)

section \<open>Claims about the resource-safety check\<close>

text \<open>
  Claim C10. The resource-safety check descends into dictionary values and list elements
  only: a tuple or a set is accepted whatever it holds, and a dictionary key is never
  looked at. So there is event data that contains a live SQLAlchemy model reference,
  reachable only through a container that is not traversed, for which \<open>publish\<close> does
  not raise and enqueues the event.
\<close>

theorem check_not_exhaustive:
  "(\<forall>xs. check_for_sqlalchemy_models (PTuple xs) = Inr ()) \<and>
   (\<forall>xs. check_for_sqlalchemy_models (PSet xs) = Inr ()) \<and>
   (\<forall>k v. check_for_sqlalchemy_models (PDict [(k, v)]) = check_for_sqlalchemy_models v) \<and>
   (\<exists>e. contains_model (model_dump e) \<and> \<not> model_reachable (model_dump e) \<and>
        (\<forall>r m. publish r m e TASK_PIPELINE =
                 (m\<lparr>q := q m @ [Some (construct_queue_message m e)]\<rparr>, Inr ())))"
proof -
  let ?e = "\<lparr>event_class = QueueWorkflowSucceededEvent,
              kwargs = [(''outputs'',
                         PDict [(PStr ''result'', PTuple [PObj ''App'' False True])])]\<rparr>"
  have "contains_model (model_dump ?e)"
    by (simp add: model_dump_def)
  moreover have unreachable: "\<not> model_reachable (model_dump ?e)"
    by (simp add: model_dump_def)
  moreover have "\<not> closes_queue ?e"
    by (simp add: closes_queue_def)
  ultimately have "contains_model (model_dump ?e) \<and> \<not> model_reachable (model_dump ?e) \<and>
        (\<forall>r m. publish r m ?e TASK_PIPELINE =
                 (m\<lparr>q := q m @ [Some (construct_queue_message m ?e)]\<rparr>, Inr ()))"
    by (simp add: publish_eq published_def)
  then have "\<exists>e. contains_model (model_dump e) \<and> \<not> model_reachable (model_dump e) \<and>
        (\<forall>r m. publish r m e TASK_PIPELINE =
                 (m\<lparr>q := q m @ [Some (construct_queue_message m e)]\<rparr>, Inr ()))"
    by (rule exI)
  moreover have "\<forall>k v. check_for_sqlalchemy_models (PDict [(k, v)]) = check_for_sqlalchemy_models v"
    by (simp split: sum.split)
  ultimately show ?thesis by simp
qed

text \<open>
  Claim C4. \<open>publish\<close> is to raise the \<open>TypeError\<close>, and to enqueue nothing, whenever a
  live model reference is present anywhere in the dumped data of the event; the
  docstring of \<open>_check_for_sqlalchemy_models\<close> says the same of its argument of type
  \<open>Any\<close>. The code does not: for an event whose \<open>outputs\<close> hold a model instance inside a
  set, \<open>publish\<close> raises nothing and the message is in the queue. The search misses
  what is held in a tuple, in a set or as a dictionary key.
\<close>

theorem publish_enqueues_model_in_set:
  "contains_model
     (model_dump \<lparr>event_class = QueueNodeSucceededEvent,
                  kwargs = [(''outputs'', PDict [(PStr ''rows'', PSet [PObj ''Message'' False True])])]\<rparr>) \<and>
   publish Map.empty
     \<lparr>task_id = ''t1'', user_id = ''u1'', invoke_from = WEB_APP, conversation_id = ''c1'',
      app_mode = ''chat'', message_id = ''m1'', q = []\<rparr>
     \<lparr>event_class = QueueNodeSucceededEvent,
      kwargs = [(''outputs'', PDict [(PStr ''rows'', PSet [PObj ''Message'' False True])])]\<rparr>
     APPLICATION_MANAGER =
   (\<lparr>task_id = ''t1'', user_id = ''u1'', invoke_from = WEB_APP, conversation_id = ''c1'',
     app_mode = ''chat'', message_id = ''m1'',
     q = [Some \<lparr>msg_task_id = ''t1'', msg_message_id = ''m1'', msg_conversation_id = ''c1'',
                msg_app_mode = ''chat'',
                msg_event = \<lparr>event_class = QueueNodeSucceededEvent,
                  kwargs = [(''outputs'', PDict [(PStr ''rows'', PSet [PObj ''Message'' False True])])]\<rparr>\<rparr>]\<rparr>,
    Inr ())"
  by (simp add: publish_def model_dump_def message_based_publish_def closes_queue_def
      construct_queue_message_def is_stopped_def redis_get_def)

section \<open>Claims about publishing after a stop and about the stop flag\<close>

text \<open>
  Claim C2, as stated, fails: it asks every \<open>publish\<close> after the stop flag is set to
  raise \<open>GenerateTaskStoppedError\<close>, whatever the origin. With the stopped key present, a
  \<open>publish\<close> from \<open>TASK_PIPELINE\<close> returns normally.
\<close>

theorem publish_task_pipeline_after_stop_counterexample:
  "is_stopped (Map.empty(''generate_task_stopped:t1'' \<mapsto> (600, ''1'')))
     \<lparr>task_id = ''t1'', user_id = ''u1'', invoke_from = WEB_APP, conversation_id = ''c1'',
      app_mode = ''chat'', message_id = ''m1'', q = []\<rparr> \<and>
   snd (publish (Map.empty(''generate_task_stopped:t1'' \<mapsto> (600, ''1'')))
     \<lparr>task_id = ''t1'', user_id = ''u1'', invoke_from = WEB_APP, conversation_id = ''c1'',
      app_mode = ''chat'', message_id = ''m1'', q = []\<rparr>
     \<lparr>event_class = QueuePingEvent, kwargs = []\<rparr> TASK_PIPELINE) = Inr ()"
  by (simp add: publish_def model_dump_def message_based_publish_def closes_queue_def
      is_stopped_def redis_get_def generate_stopped_cache_key_def)

text \<open>
  Claim C2, amended. When the task's stopped key is present, \<open>publish\<close> raises
  \<open>GenerateTaskStoppedError\<close> for every event that passes the resource-safety check
  and comes from \<open>APPLICATION_MANAGER\<close>; for such an event from \<open>TASK_PIPELINE\<close> it
  returns normally, and an event that fails the check raises the \<open>TypeError\<close> instead.
\<close>

theorem publish_after_stop:
  "is_stopped r m \<Longrightarrow>
   snd (publish r m e pf) =
     (if model_reachable (model_dump e) then Inl (TypeError sqlalchemy_message)
      else if pf = APPLICATION_MANAGER then Inl GenerateTaskStoppedError
      else Inr ())"
  by (simp add: publish_eq)

theorem publish_after_stop_witness:
  "is_stopped (Map.empty(''generate_task_stopped:t1'' \<mapsto> (600, ''1'')))
     \<lparr>task_id = ''t1'', user_id = ''u1'', invoke_from = WEB_APP, conversation_id = ''c1'',
      app_mode = ''chat'', message_id = ''m1'', q = []\<rparr> \<and>
   snd (publish (Map.empty(''generate_task_stopped:t1'' \<mapsto> (600, ''1'')))
     \<lparr>task_id = ''t1'', user_id = ''u1'', invoke_from = WEB_APP, conversation_id = ''c1'',
      app_mode = ''chat'', message_id = ''m1'', q = []\<rparr>
     \<lparr>event_class = QueueTextChunkEvent, kwargs = [(''text'', PStr ''hi'')]\<rparr>
     APPLICATION_MANAGER) = Inl GenerateTaskStoppedError"
proof -
  have h: "is_stopped (Map.empty(''generate_task_stopped:t1'' \<mapsto> (600, ''1'')))
     \<lparr>task_id = ''t1'', user_id = ''u1'', invoke_from = WEB_APP, conversation_id = ''c1'',
      app_mode = ''chat'', message_id = ''m1'', q = []\<rparr>"
    by (simp add: is_stopped_def redis_get_def generate_stopped_cache_key_def)
  show ?thesis
    using h publish_after_stop [OF h,
        of "\<lparr>event_class = QueueTextChunkEvent, kwargs = [(''text'', PStr ''hi'')]\<rparr>"
           APPLICATION_MANAGER]
    by (simp add: model_dump_def)
qed

text \<open>
  Claim C3. \<open>set_stop_flag\<close> writes the stopped key, with a time to live of 600 seconds,
  exactly when the ownership record of the task exists and equals the requester's
  identity string, \<open>account\<close> for \<open>EXPLORE\<close> and \<open>DEBUGGER\<close> and \<open>end-user\<close> otherwise,
  then \<open>-\<close> and the user id; in every other case it returns the store unchanged. It has
  no raising branch. The record written at construction is built in the same way.
\<close>

theorem set_stop_flag_owner_only:
  "set_stop_flag r t i u =
     (if redis_get r (generate_task_belong_cache_key t)
           = Some ((if i = EXPLORE \<or> i = DEBUGGER then ''account'' else ''end-user'') @ ''-'' @ u)
      then r(generate_stopped_cache_key t \<mapsto> (600, ''1''))
      else r) \<and>
   (init r t u i c a mid = Inr (r', m) \<longrightarrow>
      redis_get r' (generate_task_belong_cache_key t)
        = Some ((if i = EXPLORE \<or> i = DEBUGGER then ''account'' else ''end-user'') @ ''-'' @ u))"
  by (auto simp: set_stop_flag_def init_def setex_def redis_get_def user_prefix_def
      split: option.splits if_splits)

theorem set_stop_flag_owner_only_witness:
  "init Map.empty ''t1'' ''u1'' DEBUGGER ''c1'' ''chat'' ''m1'' =
     Inr (Map.empty(''generate_task_belong:t1'' \<mapsto> (1800, ''account-u1'')),
          \<lparr>task_id = ''t1'', user_id = ''u1'', invoke_from = DEBUGGER, conversation_id = ''c1'',
           app_mode = ''chat'', message_id = ''m1'', q = []\<rparr>) \<and>
   redis_get (Map.empty(''generate_task_belong:t1'' \<mapsto> (1800, ''account-u1'')))
      (generate_task_belong_cache_key ''t1'') = Some ''account-u1'' \<and>
   set_stop_flag (Map.empty(''generate_task_belong:t1'' \<mapsto> (1800, ''account-u1'')))
      ''t1'' DEBUGGER ''u1'' =
     (Map.empty(''generate_task_belong:t1'' \<mapsto> (1800, ''account-u1'')))
       (''generate_task_stopped:t1'' \<mapsto> (600, ''1'')) \<and>
   set_stop_flag (Map.empty(''generate_task_belong:t1'' \<mapsto> (1800, ''account-u1'')))
      ''t1'' WEB_APP ''u1'' =
     Map.empty(''generate_task_belong:t1'' \<mapsto> (1800, ''account-u1''))"
proof -
  have i: "init Map.empty ''t1'' ''u1'' DEBUGGER ''c1'' ''chat'' ''m1'' =
     Inr (Map.empty(''generate_task_belong:t1'' \<mapsto> (1800, ''account-u1'')),
          \<lparr>task_id = ''t1'', user_id = ''u1'', invoke_from = DEBUGGER, conversation_id = ''c1'',
           app_mode = ''chat'', message_id = ''m1'', q = []\<rparr>)"
    by (simp add: init_def setex_def generate_task_belong_cache_key_def user_prefix_def)
  have g: "redis_get (Map.empty(''generate_task_belong:t1'' \<mapsto> (1800, ''account-u1'')))
      (generate_task_belong_cache_key ''t1'') = Some ''account-u1''"
    using set_stop_flag_owner_only [of Map.empty "''t1''" DEBUGGER "''u1''" "''c1''" "''chat''" "''m1''"
        "Map.empty(''generate_task_belong:t1'' \<mapsto> (1800, ''account-u1''))"
        "\<lparr>task_id = ''t1'', user_id = ''u1'', invoke_from = DEBUGGER, conversation_id = ''c1'',
           app_mode = ''chat'', message_id = ''m1'', q = []\<rparr>"] i
    by simp
  show ?thesis
    using i g
      set_stop_flag_owner_only [of "Map.empty(''generate_task_belong:t1'' \<mapsto> (1800, ''account-u1''))"
        "''t1''" DEBUGGER "''u1''" "''c1''" "''chat''" "''m1''"
        "Map.empty(''generate_task_belong:t1'' \<mapsto> (1800, ''account-u1''))"
        "\<lparr>task_id = ''t1'', user_id = ''u1'', invoke_from = DEBUGGER, conversation_id = ''c1'',
           app_mode = ''chat'', message_id = ''m1'', q = []\<rparr>"]
      set_stop_flag_owner_only [of "Map.empty(''generate_task_belong:t1'' \<mapsto> (1800, ''account-u1''))"
        "''t1''" WEB_APP "''u1''" "''c1''" "''chat''" "''m1''"
        "Map.empty(''generate_task_belong:t1'' \<mapsto> (1800, ''account-u1''))"
        "\<lparr>task_id = ''t1'', user_id = ''u1'', invoke_from = DEBUGGER, conversation_id = ''c1'',
           app_mode = ''chat'', message_id = ''m1'', q = []\<rparr>"]
    by (simp add: generate_stopped_cache_key_def)
qed

section \<open>listen: the queue only grows at its end\<close>

lemma put_items_q [simp]: "put_items (m\<lparr>q := xs\<rparr>) ps = put_items m ps"
  by (induction m ps rule: put_items.induct) (simp_all split: sum.splits)

lemma put_items_append: "put_items m (ps @ ps') = put_items m ps @ put_items m ps'"
  by (induction m ps rule: put_items.induct) simp_all

lemma deliver_eq: "deliver ps m = m\<lparr>q := q m @ put_items m ps\<rparr>"
proof (induction ps m rule: deliver.induct)
  case (1 m)
  show ?case by simp
next
  case (2 e ps m)
  then show ?case by (simp add: split: sum.splits)
next
  case (3 ps m)
  then show ?case by (simp add: stop_listen_def)
qed

lemma publish_interleaved_plain: "publish_interleaved r [] m e pf = publish r m e pf"
  by (simp add: publish_interleaved_def publish_def message_based_publish_def Let_def
      split: sum.splits)

lemma publish_interleaved_eq:
  "publish_interleaved r others m e pf =
     (if model_reachable (model_dump e) then (m, Inl (TypeError sqlalchemy_message))
      else (m\<lparr>q := q m @ Some (construct_queue_message m e) # put_items m others @
                        (if closes_queue e then [None] else [])\<rparr>,
            if pf = APPLICATION_MANAGER \<and> is_stopped r m then Inl GenerateTaskStoppedError
            else Inr ()))"
  by (auto simp: publish_interleaved_def check_eq(1) deliver_eq stop_listen_def Let_def)

lemma listen_finally_interleaved_eq:
  "listen_finally_interleaved T t m lp =
     ((m\<lparr>q := q m @ finally_items_interleaved T t m lp\<rparr>,
       if \<lfloor>now t / 10\<rfloor> > lp then \<lfloor>now t / 10\<rfloor> else lp), Inr ())"
  by (simp add: listen_finally_interleaved_def publish_interleaved_eq publish_eq deliver_eq
      finally_items_interleaved_def published_def Let_def)

lemma listen_finally_interleaved_plain:
  "between t = [] \<Longrightarrow> before_ping t = [] \<Longrightarrow>
   listen_finally_interleaved T t m lp = listen_finally T (tick.truncate t) m lp"
  by (simp add: listen_finally_interleaved_eq listen_finally_eq finally_items_interleaved_def
      finally_items_def tick.truncate_def)

lemma paired_append: "paired xs \<Longrightarrow> paired ys \<Longrightarrow> paired (xs @ ys)"
proof (induction xs rule: paired.induct)
  case 1
  then show ?case by simp
next
  case (2 xs)
  then show ?case by simp
next
  case (3 a xs)
  show ?case
  proof (cases "closes_queue (msg_event a)")
    case True
    with "3.prems"(1) obtain zs where xs: "xs = None # zs" and zs: "paired zs"
      by (auto split: list.splits option.splits)
    from "3.IH"(1) [OF True xs refl zs "3.prems"(2)] True xs show ?thesis by simp
  next
    case False
    with "3.prems" "3.IH"(2) show ?thesis by simp
  qed
qed

lemma msg_event_construct [simp]: "msg_event (construct_queue_message m e) = e"
  by (simp add: construct_queue_message_def)

lemma serialised_paired: "serialised ps \<Longrightarrow> paired (put_items m ps)"
proof (induction ps rule: serialised.induct)
  case 1
  then show ?case by simp
next
  case (2 ps)
  then show ?case by simp
next
  case (3 e ps)
  show ?case
  proof (cases "check_for_sqlalchemy_models (model_dump e)")
    case (Inl err)
    with "3.prems" "3.IH"(1) show ?thesis by simp
  next
    case (Inr u)
    show ?thesis
    proof (cases "closes_queue e")
      case True
      with "3.prems" Inr obtain ps' where ps: "ps = Put_sentinel # ps'" and s: "serialised ps'"
        by (auto split: list.splits put.splits)
      from "3.IH"(2) [OF Inr True ps refl s] Inr True ps show ?thesis by simp
    next
      case False
      with "3.prems" "3.IH"(3) Inr show ?thesis by simp
    qed
  qed
qed

lemma open_queue_paired: "open_queue xs \<Longrightarrow> paired xs"
  by (induction xs rule: open_queue.induct) simp_all

lemma open_queue_append: "open_queue xs \<Longrightarrow> open_queue ys \<Longrightarrow> open_queue (xs @ ys)"
  by (induction xs rule: open_queue.induct) simp_all

lemma open_queue_queued: "open_queue xs \<Longrightarrow> xs = map Some (queued xs)"
  by (induction xs rule: open_queue.induct) simp_all

lemma queued_append: "queued (xs @ ys) = queued xs @ queued ys"
  by (induction xs rule: queued.induct) simp_all

lemma queued_map_Some [simp]: "queued (map Some xs) = xs"
  by (induction xs) simp_all

lemma no_closing_puts_open: "no_closing_puts ps \<Longrightarrow> open_queue (put_items m ps)"
  by (induction ps rule: no_closing_puts.induct) (simp_all split: sum.splits)

lemma paired_finally_items:
  "serialised_tick t \<Longrightarrow> paired (finally_items_interleaved T t m lp)"
proof -
  assume s: "serialised_tick t"
  let ?stop = "if now t \<ge> real T \<or> is_stopped (store t) m
      then Some (construct_queue_message m stop_event) # put_items m (between t) @ [None]
      else []"
  let ?ping = "if \<lfloor>now t / 10\<rfloor> > lp then [Some (construct_queue_message m ping_event)] else []"
  have 1: "paired ?stop"
    using s by (simp add: serialised_tick_def)
  have 2: "paired (put_items m (before_ping t))"
    using s by (simp add: serialised_tick_def serialised_paired)
  have 3: "paired ?ping"
    by simp
  have "paired (?stop @ put_items m (before_ping t) @ ?ping)"
    using 1 paired_append [OF 2 3] by (rule paired_append)
  then show ?thesis
    by (simp add: finally_items_interleaved_def)
qed

lemma listen_sentinel_first:
  "q m = None # rest \<Longrightarrow> fst (listen T ts m lp) = []"
proof (cases ts)
  case Nil
  then show ?thesis by simp
next
  case (Cons t ts')
  assume "q m = None # rest"
  with Cons show ?thesis
    by (simp add: deliver_eq listen_finally_interleaved_eq)
qed

lemma listen_head:
  "q m = Some x # rest \<Longrightarrow> \<exists>ys. fst (listen T (t # ts) m lp) = x # ys"
  by (simp add: deliver_eq listen_finally_interleaved_eq Let_def)

lemma listen_until_sentinel:
  "q m = map Some xs @ None # rest \<Longrightarrow> length xs < length ts \<Longrightarrow>
   listen T ts m lp = (xs, Returned)"
proof (induction xs arbitrary: m ts lp rest)
  case Nil
  then obtain t ts' where ts: "ts = t # ts'" by (cases ts) auto
  with Nil.prems(1) show ?case
    by (simp add: deliver_eq listen_finally_interleaved_eq)
next
  case (Cons x xs)
  then obtain t ts' where ts: "ts = t # ts'" by (cases ts) auto
  let ?e1 = "put_items m (arrivals t)"
  let ?e2 = "put_items m (suspended t)"
  let ?m2 = "m\<lparr>q := map Some xs @ None # (rest @ ?e1 @ ?e2)\<rparr>"
  let ?m3 = "?m2\<lparr>q := q ?m2 @ finally_items_interleaved T t ?m2 lp\<rparr>"
  let ?lp = "if lp < \<lfloor>now t / 10\<rfloor> then \<lfloor>now t / 10\<rfloor> else lp"
  have q3: "q ?m3 = map Some xs @ None # (rest @ ?e1 @ ?e2 @ finally_items_interleaved T t ?m2 lp)"
    by simp
  have len: "length xs < length ts'"
    using Cons.prems(2) ts by simp
  have "listen T ts' ?m3 ?lp = (xs, Returned)"
    using q3 len by (rule Cons.IH)
  then show ?case
    using ts Cons.prems(1) by (simp add: deliver_eq listen_finally_interleaved_eq Let_def)
qed

lemma listen_serialised:
  "paired (q m) \<Longrightarrow> list_all serialised_tick ts \<Longrightarrow>
   list_all (\<lambda>x. \<not> closes_queue (msg_event x)) (butlast (fst (listen T ts m lp))) \<and>
   (snd (listen T ts m lp) = Returned \<longrightarrow>
      fst (listen T ts m lp) \<noteq> [] \<and>
      closes_queue (msg_event (last (fst (listen T ts m lp)))))"
proof (induction ts arbitrary: m lp)
  case Nil
  then show ?case by simp
next
  case (Cons t ts)
  from Cons.prems(2) have st: "serialised_tick t" and sts: "list_all serialised_tick ts"
    by simp_all
  let ?e1 = "put_items m (arrivals t)"
  let ?e2 = "put_items m (suspended t)"
  let ?lp = "if lp < \<lfloor>now t / 10\<rfloor> then \<lfloor>now t / 10\<rfloor> else lp"
  have p1: "paired (q m @ ?e1)"
    using Cons.prems(1) st by (simp add: paired_append serialised_paired serialised_tick_def)
  have p2: "paired ?e2"
    using st by (simp add: serialised_paired serialised_tick_def)
  show ?case
  proof (cases "q m @ ?e1")
    case Nil
    let ?m2 = "m\<lparr>q := ?e2\<rparr>"
    let ?m3 = "?m2\<lparr>q := q ?m2 @ finally_items_interleaved T t ?m2 lp\<rparr>"
    have "paired (?e2 @ finally_items_interleaved T t ?m2 lp)"
      using p2 paired_finally_items [OF st] by (rule paired_append)
    then have "paired (q ?m3)" by simp
    from Cons.IH [OF this sts, of ?lp] Nil show ?thesis
      by (simp add: deliver_eq listen_finally_interleaved_eq)
  next
    case (Cons x rest)
    note qm1 = this
    show ?thesis
    proof (cases x)
      case None
      with p1 qm1 show ?thesis by simp
    next
      case (Some message)
      let ?m2 = "m\<lparr>q := rest @ ?e2\<rparr>"
      let ?m3 = "?m2\<lparr>q := q ?m2 @ finally_items_interleaved T t ?m2 lp\<rparr>"
      have unfold: "listen T (t # ts) m lp =
          (message # fst (listen T ts ?m3 ?lp), snd (listen T ts ?m3 ?lp))"
        using qm1 Some by (simp add: deliver_eq listen_finally_interleaved_eq Let_def)
      show ?thesis
      proof (cases "closes_queue (msg_event message)")
        case True
        with p1 qm1 Some obtain rest' where r: "rest = None # rest'"
          by (auto split: list.splits option.splits)
        then have "q ?m3 = None # (rest' @ ?e2 @ finally_items_interleaved T t ?m2 lp)"
          by simp
        then have "fst (listen T ts ?m3 ?lp) = []"
          by (rule listen_sentinel_first)
        with unfold True show ?thesis by simp
      next
        case False
        with p1 qm1 Some have "paired rest" by simp
        then have "paired (rest @ ?e2)"
          using p2 by (rule paired_append)
        then have "paired ((rest @ ?e2) @ finally_items_interleaved T t ?m2 lp)"
          using paired_finally_items [OF st] by (rule paired_append)
        then have "paired (q ?m3)" by simp
        from Cons.IH [OF this sts, of ?lp] unfold False show ?thesis
          by (cases "fst (listen T ts ?m3 ?lp)") simp_all
      qed
    qed
  qed
qed

lemma listen_stop_observed:
  assumes oq: "open_queue (q m)"
    and oa: "no_closing_puts (arrivals t)" and os: "no_closing_puts (suspended t)"
    and b: "between t = []"
    and fires: "real T \<le> now t \<or> is_stopped (store t) m"
    and len: "Suc (length (q m) + length (put_items m (arrivals t @ suspended t))) < length ts"
  shows "listen T (t # ts) m lp =
     (queued (q m) @ queued (put_items m (arrivals t @ suspended t)) @
        [construct_queue_message m stop_event], Returned)"
proof -
  let ?e1 = "put_items m (arrivals t)"
  let ?e2 = "put_items m (suspended t)"
  let ?stop = "construct_queue_message m stop_event"
  let ?lp = "if lp < \<lfloor>now t / 10\<rfloor> then \<lfloor>now t / 10\<rfloor> else lp"
  let ?tail = "put_items m (before_ping t) @
     (if \<lfloor>now t / 10\<rfloor> > lp then [Some (construct_queue_message m ping_event)] else [])"
  have o1: "open_queue (q m @ ?e1)"
    using oq oa by (simp add: open_queue_append no_closing_puts_open)
  have o2: "open_queue ?e2"
    using os by (rule no_closing_puts_open)
  have fin: "\<And>m'. finally_items_interleaved T t (m\<lparr>q := m'\<rparr>) lp = Some ?stop # None # ?tail"
    using fires b by (simp add: finally_items_interleaved_def)
  have e2: "?e2 = map Some (queued ?e2)"
    using o2 by (rule open_queue_queued)
  have total: "queued (put_items m (arrivals t @ suspended t)) = queued ?e1 @ queued ?e2"
    by (simp add: put_items_append queued_append)
  have l12: "length (queued ?e1) + length (queued ?e2) \<le> length (put_items m (arrivals t @ suspended t))"
    using open_queue_queued [OF o2] open_queue_queued [OF no_closing_puts_open [OF oa, of m]]
    by (metis length_append length_map order_refl put_items_append)
  have lq: "length (queued (q m)) = length (q m)"
    using open_queue_queued [OF oq] by (metis length_map)
  show ?thesis
  proof (cases "q m @ ?e1")
    case Nil
    then have qe: "q m = []" "?e1 = []" by simp_all
    let ?m2 = "m\<lparr>q := ?e2\<rparr>"
    let ?m3 = "?m2\<lparr>q := q ?m2 @ finally_items_interleaved T t ?m2 lp\<rparr>"
    have "q ?m3 = map Some (queued ?e2 @ [?stop]) @ None # ?tail"
      using e2 fin [of ?e2] by simp
    moreover have "length (queued ?e2 @ [?stop]) < length ts"
      using len l12 by simp
    ultimately have "listen T ts ?m3 ?lp = (queued ?e2 @ [?stop], Returned)"
      by (rule listen_until_sentinel)
    moreover have "listen T (t # ts) m lp = listen T ts ?m3 ?lp"
      using Nil by (simp add: deliver_eq listen_finally_interleaved_eq)
    ultimately show ?thesis
      using qe total by simp
  next
    case (Cons x rest)
    from o1 Cons obtain a where x: "x = Some a" and orest: "open_queue rest"
      by (cases x) simp_all
    let ?m2 = "m\<lparr>q := rest @ ?e2\<rparr>"
    let ?m3 = "?m2\<lparr>q := q ?m2 @ finally_items_interleaved T t ?m2 lp\<rparr>"
    have pend: "queued (q m) @ queued ?e1 = a # queued rest"
      using Cons x by (metis queued.simps(3) queued_append)
    have rest: "rest = map Some (queued rest)"
      using orest by (rule open_queue_queued)
    have "q ?m3 = map Some (queued rest @ queued ?e2 @ [?stop]) @ None # ?tail"
      using rest e2 fin [of "rest @ ?e2"] by simp
    moreover have "length (queued rest @ queued ?e2 @ [?stop]) < length ts"
    proof -
      have "Suc (length (queued rest)) = length (queued (q m)) + length (queued ?e1)"
        using pend by (metis length_Cons length_append)
      then show ?thesis using len l12 lq by simp
    qed
    ultimately have "listen T ts ?m3 ?lp = (queued rest @ queued ?e2 @ [?stop], Returned)"
      by (rule listen_until_sentinel)
    moreover have "listen T (t # ts) m lp =
        (a # fst (listen T ts ?m3 ?lp), snd (listen T ts ?m3 ?lp))"
      using Cons x by (simp add: deliver_eq listen_finally_interleaved_eq Let_def)
    ultimately show ?thesis
      using pend total by simp
  qed
qed

lemma length_put_items: "length (put_items m ps) \<le> length ps"
  by (induction m ps rule: put_items.induct) (simp_all split: sum.splits)

text \<open>
  Without serialisation an event can follow a closing one. The time budget is used up
  at the first pass; between the two queue writes of the consumer's own \<open>publish\<close> of
  the stop event, another thread puts a text chunk. The queue holds the stop event, the
  chunk and the sentinel, and \<open>listen\<close> yields the chunk after the stop event.
\<close>

lemma listen_put_between_stop_and_sentinel:
  "map msg_event (fst (listen 1200
      [\<lparr>arrivals = [], suspended = [], now = 1200, store = Map.empty,
        between = [Put_message \<lparr>event_class = QueueTextChunkEvent,
                                 kwargs = [(''text'', PStr ''late'')]\<rparr>],
        before_ping = []\<rparr>,
       \<lparr>arrivals = [], suspended = [], now = 1201, store = Map.empty,
        between = [], before_ping = []\<rparr>,
       \<lparr>arrivals = [], suspended = [], now = 1202, store = Map.empty,
        between = [], before_ping = []\<rparr>,
       \<lparr>arrivals = [], suspended = [], now = 1203, store = Map.empty,
        between = [], before_ping = []\<rparr>]
      \<lparr>task_id = ''t1'', user_id = ''u1'', invoke_from = WEB_APP, conversation_id = ''c1'',
       app_mode = ''chat'', message_id = ''m1'', q = []\<rparr> 0)) =
     [\<lparr>event_class = QueueStopEvent,
       kwargs = [(''stopped_by'', PEnum ''QueueStopEvent.StopBy.USER_MANUAL'')]\<rparr>,
      \<lparr>event_class = QueueTextChunkEvent, kwargs = [(''text'', PStr ''late'')]\<rparr>]"
  by (simp add: listen_finally_interleaved_def publish_interleaved_def publish_def
      model_dump_def message_based_publish_def closes_queue_def construct_queue_message_def
      is_stopped_def redis_get_def stop_event_def ping_event_def stop_listen_def Let_def)

section \<open>Claims about listen\<close>

text \<open>
  Claim C1, as stated, fails: it asks that the consumer of \<open>listen\<close> sees exactly one
  terminal event (run succeeded, run failed or stop) and nothing after it. A run
  publishes its \<open>QueueWorkflowSucceededEvent\<close>, which does not close the queue; the
  time budget is used up when the loop reaches its \<open>finally\<close> block after yielding it,
  and the consumer receives the succeeded event and then a \<open>QueueStopEvent\<close>: two
  terminal events, one after the other.
\<close>

theorem listen_two_terminal_events_counterexample:
  "map msg_event (fst (listen 1200
      [\<lparr>arrivals = [Put_message \<lparr>event_class = QueueWorkflowSucceededEvent,
                                  kwargs = [(''outputs'', PNone)]\<rparr>],
        suspended = [], now = 1200, store = Map.empty, between = [], before_ping = []\<rparr>,
       \<lparr>arrivals = [], suspended = [], now = 1201, store = Map.empty,
        between = [], before_ping = []\<rparr>,
       \<lparr>arrivals = [], suspended = [], now = 1202, store = Map.empty,
        between = [], before_ping = []\<rparr>]
      \<lparr>task_id = ''t1'', user_id = ''u1'', invoke_from = WEB_APP, conversation_id = ''c1'',
       app_mode = ''advanced-chat'', message_id = ''m1'', q = []\<rparr> 0)) =
     [\<lparr>event_class = QueueWorkflowSucceededEvent, kwargs = [(''outputs'', PNone)]\<rparr>,
      \<lparr>event_class = QueueStopEvent,
       kwargs = [(''stopped_by'', PEnum ''QueueStopEvent.StopBy.USER_MANUAL'')]\<rparr>] \<and>
   terminal_event \<lparr>event_class = QueueWorkflowSucceededEvent, kwargs = [(''outputs'', PNone)]\<rparr> \<and>
   terminal_event \<lparr>event_class = QueueStopEvent,
       kwargs = [(''stopped_by'', PEnum ''QueueStopEvent.StopBy.USER_MANUAL'')]\<rparr>"
  by (simp add: listen_finally_interleaved_def publish_interleaved_def publish_def
      model_dump_def message_based_publish_def closes_queue_def construct_queue_message_def
      is_stopped_def redis_get_def stop_event_def ping_event_def stop_listen_def
      terminal_event_def Let_def)

text \<open>
  Claim C1, amended. The events that end the stream are the queue-closing ones
  (\<open>QueueStopEvent\<close>, \<open>QueueErrorEvent\<close>, \<open>QueueMessageEndEvent\<close>,
  \<open>QueueAdvancedChatMessageEndEvent\<close>), not the succeeded and failed events of the run.
  Under every interleaving of the puts, once a sentinel is in the queue \<open>listen\<close> yields
  the messages ahead of it, returns, and yields nothing after. When publishing is
  serialised (no put falls between the two queue writes of a \<open>publish\<close> call) and the
  run starts from a queue whose closing messages and sentinels are paired, such as the
  empty queue of a new manager, no yielded event but the last is closing, and on every
  run of \<open>listen\<close> that returns the consumer has observed exactly one closing event,
  the last event yielded. In particular, when the stop flag or the timeout is observed
  at a pass up to which nothing closing has been published, and no put falls between
  the two writes of the stop event, the consumer observes the pending events and then
  exactly one \<open>QueueStopEvent\<close>, with which \<open>listen\<close> returns once the loop has made
  one pass for each pending event and two more.
\<close>

theorem listen_exactly_one_closing_event:
  "(q m = map Some xs @ None # rest \<and> length xs < length ts \<longrightarrow>
      listen T ts m lp = (xs, Returned)) \<and>
   (paired (q m) \<and> list_all serialised_tick ts \<longrightarrow>
      list_all (\<lambda>x. \<not> closes_queue (msg_event x)) (butlast (fst (listen T ts m lp))) \<and>
      (snd (listen T ts m lp) = Returned \<longrightarrow>
         fst (listen T ts m lp) \<noteq> [] \<and>
         closes_queue (msg_event (last (fst (listen T ts m lp)))))) \<and>
   (open_queue (q m) \<and> no_closing_puts (arrivals t) \<and> no_closing_puts (suspended t) \<and>
    between t = [] \<and> (real T \<le> now t \<or> is_stopped (store t) m) \<and>
    Suc (length (q m) + length (arrivals t) + length (suspended t)) < length ts \<longrightarrow>
      listen T (t # ts) m lp =
        (queued (q m) @ queued (put_items m (arrivals t @ suspended t)) @
           [construct_queue_message m stop_event], Returned))"
proof (intro conjI impI)
  assume "q m = map Some xs @ None # rest \<and> length xs < length ts"
  then show "listen T ts m lp = (xs, Returned)"
    by (simp add: listen_until_sentinel)
next
  assume a: "paired (q m) \<and> list_all serialised_tick ts"
  then have p: "paired (q m)" and s: "list_all serialised_tick ts" by simp_all
  from listen_serialised [OF p s]
  show "list_all (\<lambda>x. \<not> closes_queue (msg_event x)) (butlast (fst (listen T ts m lp)))"
    by simp
  assume "snd (listen T ts m lp) = Returned"
  with listen_serialised [OF p s, of T lp]
  show "fst (listen T ts m lp) \<noteq> []"
    and "closes_queue (msg_event (last (fst (listen T ts m lp))))"
    by simp_all
next
  assume a: "open_queue (q m) \<and> no_closing_puts (arrivals t) \<and> no_closing_puts (suspended t) \<and>
    between t = [] \<and> (real T \<le> now t \<or> is_stopped (store t) m) \<and>
    Suc (length (q m) + length (arrivals t) + length (suspended t)) < length ts"
  have "length (put_items m (arrivals t @ suspended t)) \<le> length (arrivals t) + length (suspended t)"
    using length_put_items [of m "arrivals t @ suspended t"] by simp
  with a have len: "Suc (length (q m) + length (put_items m (arrivals t @ suspended t))) < length ts"
    by simp
  from a have oq: "open_queue (q m)" and oa: "no_closing_puts (arrivals t)"
    and os: "no_closing_puts (suspended t)" and b: "between t = []"
    and fires: "real T \<le> now t \<or> is_stopped (store t) m"
    by simp_all
  show "listen T (t # ts) m lp =
        (queued (q m) @ queued (put_items m (arrivals t @ suspended t)) @
           [construct_queue_message m stop_event], Returned)"
    using oq oa os b fires len by (rule listen_stop_observed)
qed

theorem listen_exactly_one_closing_event_witness:
  "paired (q \<lparr>task_id = ''t1'', user_id = ''u1'', invoke_from = WEB_APP, conversation_id = ''c1'',
      app_mode = ''advanced-chat'', message_id = ''m1'', q = []\<rparr>) \<and>
   open_queue (q \<lparr>task_id = ''t1'', user_id = ''u1'', invoke_from = WEB_APP,
      conversation_id = ''c1'', app_mode = ''advanced-chat'', message_id = ''m1'', q = []\<rparr>) \<and>
   serialised_tick
     \<lparr>arrivals = [Put_message \<lparr>event_class = QueueWorkflowSucceededEvent,
                                kwargs = [(''outputs'', PNone)]\<rparr>],
      suspended = [], now = 1200, store = Map.empty, between = [], before_ping = []\<rparr> \<and>
   serialised_tick
     \<lparr>arrivals = [Put_message \<lparr>event_class = QueueMessageEndEvent, kwargs = []\<rparr>, Put_sentinel],
      suspended = [], now = 1202, store = Map.empty, between = [], before_ping = []\<rparr> \<and>
   no_closing_puts [Put_message \<lparr>event_class = QueueWorkflowSucceededEvent,
                                kwargs = [(''outputs'', PNone)]\<rparr>] \<and>
   listen 1200
     [\<lparr>arrivals = [Put_message \<lparr>event_class = QueueWorkflowSucceededEvent,
                                 kwargs = [(''outputs'', PNone)]\<rparr>],
       suspended = [], now = 1200, store = Map.empty, between = [], before_ping = []\<rparr>,
      \<lparr>arrivals = [], suspended = [], now = 1201, store = Map.empty,
       between = [], before_ping = []\<rparr>,
      \<lparr>arrivals = [Put_message \<lparr>event_class = QueueMessageEndEvent, kwargs = []\<rparr>, Put_sentinel],
       suspended = [], now = 1202, store = Map.empty, between = [], before_ping = []\<rparr>,
      \<lparr>arrivals = [], suspended = [], now = 1203, store = Map.empty,
       between = [], before_ping = []\<rparr>]
     \<lparr>task_id = ''t1'', user_id = ''u1'', invoke_from = WEB_APP, conversation_id = ''c1'',
      app_mode = ''advanced-chat'', message_id = ''m1'', q = []\<rparr> 0 =
   ([\<lparr>msg_task_id = ''t1'', msg_message_id = ''m1'', msg_conversation_id = ''c1'',
      msg_app_mode = ''advanced-chat'',
      msg_event = \<lparr>event_class = QueueWorkflowSucceededEvent, kwargs = [(''outputs'', PNone)]\<rparr>\<rparr>,
     \<lparr>msg_task_id = ''t1'', msg_message_id = ''m1'', msg_conversation_id = ''c1'',
      msg_app_mode = ''advanced-chat'',
      msg_event = \<lparr>event_class = QueueStopEvent,
        kwargs = [(''stopped_by'', PEnum ''QueueStopEvent.StopBy.USER_MANUAL'')]\<rparr>\<rparr>], Returned) \<and>
   closes_queue (msg_event (last (fst (listen 1200
     [\<lparr>arrivals = [Put_message \<lparr>event_class = QueueWorkflowSucceededEvent,
                                 kwargs = [(''outputs'', PNone)]\<rparr>],
       suspended = [], now = 1200, store = Map.empty, between = [], before_ping = []\<rparr>,
      \<lparr>arrivals = [], suspended = [], now = 1201, store = Map.empty,
       between = [], before_ping = []\<rparr>,
      \<lparr>arrivals = [Put_message \<lparr>event_class = QueueMessageEndEvent, kwargs = []\<rparr>, Put_sentinel],
       suspended = [], now = 1202, store = Map.empty, between = [], before_ping = []\<rparr>,
      \<lparr>arrivals = [], suspended = [], now = 1203, store = Map.empty,
       between = [], before_ping = []\<rparr>]
     \<lparr>task_id = ''t1'', user_id = ''u1'', invoke_from = WEB_APP, conversation_id = ''c1'',
      app_mode = ''advanced-chat'', message_id = ''m1'', q = []\<rparr> 0)))) \<and>
   listen 1200
     [\<lparr>arrivals = [], suspended = [], now = 5, store = Map.empty,
       between = [], before_ping = []\<rparr>,
      \<lparr>arrivals = [], suspended = [], now = 6, store = Map.empty,
       between = [], before_ping = []\<rparr>]
     \<lparr>task_id = ''t1'', user_id = ''u1'', invoke_from = WEB_APP, conversation_id = ''c1'',
      app_mode = ''advanced-chat'', message_id = ''m1'',
      q = [Some \<lparr>msg_task_id = ''t1'', msg_message_id = ''m1'', msg_conversation_id = ''c1'',
                 msg_app_mode = ''advanced-chat'',
                 msg_event = \<lparr>event_class = QueueErrorEvent, kwargs = []\<rparr>\<rparr>,
           None]\<rparr> 0 =
   ([\<lparr>msg_task_id = ''t1'', msg_message_id = ''m1'', msg_conversation_id = ''c1'',
      msg_app_mode = ''advanced-chat'',
      msg_event = \<lparr>event_class = QueueErrorEvent, kwargs = []\<rparr>\<rparr>], Returned)"
proof -
  let ?m = "\<lparr>task_id = ''t1'', user_id = ''u1'', invoke_from = WEB_APP, conversation_id = ''c1'',
      app_mode = ''advanced-chat'', message_id = ''m1'', q = []\<rparr>"
  let ?succ = "\<lparr>event_class = QueueWorkflowSucceededEvent, kwargs = [(''outputs'', PNone)]\<rparr>"
  let ?t1 = "\<lparr>arrivals = [Put_message ?succ],
       suspended = [], now = 1200, store = Map.empty, between = [], before_ping = []\<rparr>"
  let ?t2 = "\<lparr>arrivals = [], suspended = [], now = 1201, store = Map.empty,
       between = [], before_ping = []\<rparr>"
  let ?t3 = "\<lparr>arrivals = [Put_message \<lparr>event_class = QueueMessageEndEvent, kwargs = []\<rparr>, Put_sentinel],
       suspended = [], now = 1202, store = Map.empty, between = [], before_ping = []\<rparr>"
  let ?t4 = "\<lparr>arrivals = [], suspended = [], now = 1203, store = Map.empty,
       between = [], before_ping = []\<rparr>"
  let ?err = "\<lparr>msg_task_id = ''t1'', msg_message_id = ''m1'', msg_conversation_id = ''c1'',
                 msg_app_mode = ''advanced-chat'',
                 msg_event = \<lparr>event_class = QueueErrorEvent, kwargs = []\<rparr>\<rparr>"
  let ?m' = "\<lparr>task_id = ''t1'', user_id = ''u1'', invoke_from = WEB_APP, conversation_id = ''c1'',
      app_mode = ''advanced-chat'', message_id = ''m1'', q = [Some ?err, None]\<rparr>"
  let ?u1 = "\<lparr>arrivals = [], suspended = [], now = 5, store = Map.empty,
       between = [], before_ping = []\<rparr>"
  let ?u2 = "\<lparr>arrivals = [], suspended = [], now = 6, store = Map.empty,
       between = [], before_ping = []\<rparr>"
  have st: "serialised_tick ?t1" "serialised_tick ?t2" "serialised_tick ?t3" "serialised_tick ?t4"
    by (simp_all add: serialised_tick_def model_dump_def closes_queue_def)
  have nc: "no_closing_puts [Put_message ?succ]"
    by (simp add: closes_queue_def)
  have h1: "q ?m' = map Some [?err] @ None # [] \<and> length [?err] < length [?u1, ?u2]"
    by simp
  have h2: "paired (q ?m) \<and> list_all serialised_tick [?t1, ?t2, ?t3, ?t4]"
    using st by simp
  have h3: "open_queue (q ?m) \<and> no_closing_puts (arrivals ?t1) \<and>
      no_closing_puts (suspended ?t1) \<and> between ?t1 = [] \<and>
      (real 1200 \<le> now ?t1 \<or> is_stopped (store ?t1) ?m) \<and>
      Suc (length (q ?m) + length (arrivals ?t1) + length (suspended ?t1))
        < length [?t2, ?t3, ?t4]"
    using nc by simp
  have r1: "listen 1200 [?u1, ?u2] ?m' 0 = ([?err], Returned)"
    by (rule listen_exactly_one_closing_event
        [where t = ?u1, THEN conjunct1, THEN mp, OF h1])
  have "listen 1200 (?t1 # [?t2, ?t3, ?t4]) ?m 0 =
      (queued (q ?m) @ queued (put_items ?m (arrivals ?t1 @ suspended ?t1)) @
         [construct_queue_message ?m stop_event], Returned)"
    by (rule listen_exactly_one_closing_event
        [where xs = "[]" and rest = "[]", THEN conjunct2, THEN conjunct2, THEN mp, OF h3])
  then have r3: "listen 1200 [?t1, ?t2, ?t3, ?t4] ?m 0 =
      ([construct_queue_message ?m ?succ, construct_queue_message ?m stop_event], Returned)"
    by (simp add: model_dump_def del: listen.simps)
  have "snd (listen 1200 [?t1, ?t2, ?t3, ?t4] ?m 0) = Returned \<longrightarrow>
      fst (listen 1200 [?t1, ?t2, ?t3, ?t4] ?m 0) \<noteq> [] \<and>
      closes_queue (msg_event (last (fst (listen 1200 [?t1, ?t2, ?t3, ?t4] ?m 0))))"
    using listen_exactly_one_closing_event
        [where xs = "[]" and rest = "[]" and t = ?t1, THEN conjunct2, THEN conjunct1, THEN mp, OF h2]
    by (rule conjunct2)
  then have r2: "closes_queue (msg_event (last (fst (listen 1200 [?t1, ?t2, ?t3, ?t4] ?m 0))))"
    using r3 by (simp del: listen.simps)
  have r3': "listen 1200 [?t1, ?t2, ?t3, ?t4] ?m 0 =
     ([\<lparr>msg_task_id = ''t1'', msg_message_id = ''m1'', msg_conversation_id = ''c1'',
      msg_app_mode = ''advanced-chat'', msg_event = ?succ\<rparr>,
     \<lparr>msg_task_id = ''t1'', msg_message_id = ''m1'', msg_conversation_id = ''c1'',
      msg_app_mode = ''advanced-chat'',
      msg_event = \<lparr>event_class = QueueStopEvent,
        kwargs = [(''stopped_by'', PEnum ''QueueStopEvent.StopBy.USER_MANUAL'')]\<rparr>\<rparr>], Returned)"
    using r3 by (simp add: construct_queue_message_def stop_event_def del: listen.simps)
  from st(1) st(3) nc r3' r2 r1 show ?thesis
    by (simp del: listen.simps)
qed

text \<open>
  Claim C5, as stated, fails: it asks that the stop event synthesized on timeout carries
  a reason that tells it from a manual stop. The \<open>finally\<close> block enqueues the same
  event, \<open>stopped_by = USER_MANUAL\<close>, when the time budget of 1200 seconds is used up and
  no stop was requested, and when a stop was requested after 3 seconds.
\<close>

theorem timeout_stop_reason_counterexample:
  "\<not> is_stopped Map.empty
      \<lparr>task_id = ''t1'', user_id = ''u1'', invoke_from = WEB_APP, conversation_id = ''c1'',
       app_mode = ''chat'', message_id = ''m1'', q = []\<rparr> \<and>
   q (fst (fst (listen_finally 1200
      \<lparr>arrivals = [], suspended = [], now = 1200, store = Map.empty\<rparr>
      \<lparr>task_id = ''t1'', user_id = ''u1'', invoke_from = WEB_APP, conversation_id = ''c1'',
       app_mode = ''chat'', message_id = ''m1'', q = []\<rparr> 120))) =
     [Some \<lparr>msg_task_id = ''t1'', msg_message_id = ''m1'', msg_conversation_id = ''c1'',
            msg_app_mode = ''chat'',
            msg_event = \<lparr>event_class = QueueStopEvent,
              kwargs = [(''stopped_by'', PEnum ''QueueStopEvent.StopBy.USER_MANUAL'')]\<rparr>\<rparr>,
      None] \<and>
   q (fst (fst (listen_finally 1200
      \<lparr>arrivals = [], suspended = [], now = 3,
        store = Map.empty(''generate_task_stopped:t1'' \<mapsto> (600, ''1''))\<rparr>
      \<lparr>task_id = ''t1'', user_id = ''u1'', invoke_from = WEB_APP, conversation_id = ''c1'',
       app_mode = ''chat'', message_id = ''m1'', q = []\<rparr> 120))) =
     [Some \<lparr>msg_task_id = ''t1'', msg_message_id = ''m1'', msg_conversation_id = ''c1'',
            msg_app_mode = ''chat'',
            msg_event = \<lparr>event_class = QueueStopEvent,
              kwargs = [(''stopped_by'', PEnum ''QueueStopEvent.StopBy.USER_MANUAL'')]\<rparr>\<rparr>,
      None]"
  by (simp add: listen_finally_def publish_def model_dump_def message_based_publish_def
      closes_queue_def construct_queue_message_def is_stopped_def redis_get_def
      stop_event_def ping_event_def stop_listen_def generate_stopped_cache_key_def Let_def)

text \<open>
  Claim C5, amended. A run whose time budget is used up gets the same stop event as a
  run stopped by its caller, the reason code included: whenever the elapsed time has
  reached \<open>listen_timeout\<close> or the stop flag is set, the \<open>finally\<close> block appends the
  message of \<open>QueueStopEvent(stopped_by=USER_MANUAL)\<close> and the sentinel (and then a ping
  when one is due), and raises nothing.
\<close>

theorem timeout_same_stop_event:
  "real T \<le> now t \<or> is_stopped (store t) m \<Longrightarrow>
   q (fst (fst (listen_finally T t m lp))) =
     q m @ [Some (construct_queue_message m stop_event), None] @
       (if lp < \<lfloor>now t / 10\<rfloor> then [Some (construct_queue_message m ping_event)] else []) \<and>
   snd (listen_finally T t m lp) = Inr () \<and>
   stop_event = \<lparr>event_class = QueueStopEvent,
                 kwargs = [(''stopped_by'', PEnum ''QueueStopEvent.StopBy.USER_MANUAL'')]\<rparr>"
  by (simp add: listen_finally_eq finally_items_def stop_event_def)

theorem timeout_same_stop_event_witness:
  "real 1200 \<le> now \<lparr>arrivals = [], suspended = [], now = 1234, store = Map.empty\<rparr> \<and>
   q (fst (fst (listen_finally 1200
      \<lparr>arrivals = [], suspended = [], now = 1234, store = Map.empty\<rparr>
      \<lparr>task_id = ''t1'', user_id = ''u1'', invoke_from = WEB_APP, conversation_id = ''c1'',
       app_mode = ''chat'', message_id = ''m1'', q = []\<rparr> 123))) =
     [Some \<lparr>msg_task_id = ''t1'', msg_message_id = ''m1'', msg_conversation_id = ''c1'',
            msg_app_mode = ''chat'',
            msg_event = \<lparr>event_class = QueueStopEvent,
              kwargs = [(''stopped_by'', PEnum ''QueueStopEvent.StopBy.USER_MANUAL'')]\<rparr>\<rparr>,
      None]"
proof -
  have h: "real 1200 \<le> now \<lparr>arrivals = [], suspended = [], now = 1234, store = Map.empty\<rparr>
      \<or> is_stopped (store \<lparr>arrivals = [], suspended = [], now = 1234, store = Map.empty\<rparr>)
      \<lparr>task_id = ''t1'', user_id = ''u1'', invoke_from = WEB_APP, conversation_id = ''c1'',
       app_mode = ''chat'', message_id = ''m1'', q = []\<rparr>"
    by simp
  show ?thesis
    using timeout_same_stop_event [OF h, of 123]
    by (simp add: construct_queue_message_def)
qed

text \<open>
  Claim C9. When \<open>_publish\<close> raises \<open>GenerateTaskStoppedError\<close> (the origin is
  \<open>APPLICATION_MANAGER\<close> and the stop flag is set), the message is already in the queue,
  followed by the sentinel when the event is a closing one; and the consumer can still
  observe it: on a queue that was empty before, the next pass of \<open>listen\<close> yields it.
\<close>

theorem stopped_publish_already_enqueued:
  "message_based_publish r m e pf = (m', Inl GenerateTaskStoppedError) \<Longrightarrow>
   pf = APPLICATION_MANAGER \<and> is_stopped r m \<and>
   q m' = q m @ Some (construct_queue_message m e) # (if closes_queue e then [None] else []) \<and>
   (q m = [] \<longrightarrow> (\<exists>ys. fst (listen T (t # ts) m' lp) = construct_queue_message m e # ys))"
proof -
  assume a: "message_based_publish r m e pf = (m', Inl GenerateTaskStoppedError)"
  then have 1: "pf = APPLICATION_MANAGER \<and> is_stopped r m"
    by (simp add: message_based_publish_eq split: if_splits)
  from a have m': "m' = m\<lparr>q := q m @ published m e\<rparr>"
    by (simp add: message_based_publish_eq)
  then have 2: "q m' = q m @ Some (construct_queue_message m e) # (if closes_queue e then [None] else [])"
    by (simp add: published_def)
  have 3: "q m = [] \<longrightarrow> (\<exists>ys. fst (listen T (t # ts) m' lp) = construct_queue_message m e # ys)"
  proof
    assume "q m = []"
    with 2 have "q m' = Some (construct_queue_message m e) # (if closes_queue e then [None] else [])"
      by simp
    then show "\<exists>ys. fst (listen T (t # ts) m' lp) = construct_queue_message m e # ys"
      by (rule listen_head)
  qed
  from 1 2 3 show ?thesis by simp
qed

theorem stopped_publish_already_enqueued_witness:
  "message_based_publish (Map.empty(''generate_task_stopped:t1'' \<mapsto> (600, ''1'')))
     \<lparr>task_id = ''t1'', user_id = ''u1'', invoke_from = WEB_APP, conversation_id = ''c1'',
      app_mode = ''chat'', message_id = ''m1'', q = []\<rparr>
     \<lparr>event_class = QueueMessageEndEvent, kwargs = [(''llm_result'', PNone)]\<rparr>
     APPLICATION_MANAGER =
   (\<lparr>task_id = ''t1'', user_id = ''u1'', invoke_from = WEB_APP, conversation_id = ''c1'',
     app_mode = ''chat'', message_id = ''m1'',
     q = [Some \<lparr>msg_task_id = ''t1'', msg_message_id = ''m1'', msg_conversation_id = ''c1'',
                msg_app_mode = ''chat'',
                msg_event = \<lparr>event_class = QueueMessageEndEvent,
                              kwargs = [(''llm_result'', PNone)]\<rparr>\<rparr>,
          None]\<rparr>,
    Inl GenerateTaskStoppedError) \<and>
   (\<exists>ys. fst (listen 1200
            [\<lparr>arrivals = [], suspended = [], now = 2,
              store = Map.empty(''generate_task_stopped:t1'' \<mapsto> (600, ''1'')),
              between = [], before_ping = []\<rparr>]
            \<lparr>task_id = ''t1'', user_id = ''u1'', invoke_from = WEB_APP, conversation_id = ''c1'',
             app_mode = ''chat'', message_id = ''m1'',
             q = [Some \<lparr>msg_task_id = ''t1'', msg_message_id = ''m1'',
                        msg_conversation_id = ''c1'', msg_app_mode = ''chat'',
                        msg_event = \<lparr>event_class = QueueMessageEndEvent,
                                      kwargs = [(''llm_result'', PNone)]\<rparr>\<rparr>,
                  None]\<rparr> 0) =
          \<lparr>msg_task_id = ''t1'', msg_message_id = ''m1'', msg_conversation_id = ''c1'',
           msg_app_mode = ''chat'',
           msg_event = \<lparr>event_class = QueueMessageEndEvent,
                         kwargs = [(''llm_result'', PNone)]\<rparr>\<rparr> # ys)"
proof -
  let ?r = "Map.empty(''generate_task_stopped:t1'' \<mapsto> (600::nat, ''1''))"
  let ?m = "\<lparr>task_id = ''t1'', user_id = ''u1'', invoke_from = WEB_APP, conversation_id = ''c1'',
      app_mode = ''chat'', message_id = ''m1'', q = []\<rparr>"
  let ?e = "\<lparr>event_class = QueueMessageEndEvent, kwargs = [(''llm_result'', PNone)]\<rparr>"
  let ?msg = "\<lparr>msg_task_id = ''t1'', msg_message_id = ''m1'', msg_conversation_id = ''c1'',
                msg_app_mode = ''chat'', msg_event = ?e\<rparr>"
  let ?m' = "\<lparr>task_id = ''t1'', user_id = ''u1'', invoke_from = WEB_APP, conversation_id = ''c1'',
     app_mode = ''chat'', message_id = ''m1'', q = [Some ?msg, None]\<rparr>"
  let ?t = "\<lparr>arrivals = [], suspended = [], now = 2, store = ?r,
              between = [], before_ping = []\<rparr>"
  have h: "message_based_publish ?r ?m ?e APPLICATION_MANAGER = (?m', Inl GenerateTaskStoppedError)"
    by (simp add: message_based_publish_def closes_queue_def construct_queue_message_def
        is_stopped_def redis_get_def stop_listen_def generate_stopped_cache_key_def Let_def)
  have "\<exists>ys. fst (listen 1200 [?t] ?m' 0) = ?msg # ys"
    using stopped_publish_already_enqueued [OF h, of 1200 ?t "[]" 0]
    by (simp add: construct_queue_message_def del: listen.simps)
  with h show ?thesis
    by (simp del: listen.simps)
qed

section \<open>Graph configurations: the two filters\<close>

lemma py_eq_JStr [simp]: "py_eq v (JStr s) = (v = JStr s)"
  by (cases v) auto

lemma map_of_dict_set: "map_of (dict_set k v d) = (map_of d)(k \<mapsto> v)"
  by (induction d) (auto simp: fun_eq_iff)

lemma dict_get_dict_set_same [simp]: "dict_get (dict_set k v d) k = v"
  by (simp add: dict_get_def map_of_dict_set)

lemma dict_get_dict_set_other [simp]: "k' \<noteq> k \<Longrightarrow> dict_get (dict_set k v d) k' = dict_get d k'"
  by (simp add: dict_get_def map_of_dict_set)

lemma filter_raise_Inr:
  "filter_raise p xs = Inr ys \<Longrightarrow>
   ys = filter (\<lambda>x. p x = Inr True) xs \<and> (\<forall>x \<in> set xs. \<exists>b. p x = Inr b)"
proof (induction xs arbitrary: ys)
  case Nil
  then show ?case by simp
next
  case (Cons x xs)
  from Cons.prems obtain b zs where b: "p x = Inr b" and zs: "filter_raise p xs = Inr zs"
    and ys: "ys = (if b then x # zs else zs)"
    by (auto split: sum.splits)
  from Cons.IH [OF zs] b ys show ?case by auto
qed

lemma map_raise_ids:
  "\<forall>n \<in> set ns. \<exists>d. n = JDict d \<Longrightarrow>
   map_raise (\<lambda>node. py_get node ''id'' JNull) ns = Inr (map node_id_of ns)"
  by (induction ns) (auto simp: node_id_of_def dict_get_def)

lemma node_in_iteration_dict:
  "node_in_iteration nid (JDict d) =
     (if dict_get d ''id'' = JStr nid then Inr True
      else (case (case map_of d ''data'' of None \<Rightarrow> JDict [] | Some x \<Rightarrow> x) of
              JDict dd \<Rightarrow>
                Inr ((case map_of dd ''iteration_id'' of None \<Rightarrow> JStr [] | Some v \<Rightarrow> v) = JStr nid)
            | _ \<Rightarrow> Inl AttributeError))"
proof -
  let ?dat = "case map_of d ''data'' of None \<Rightarrow> JDict [] | Some x \<Rightarrow> x"
  have "node_in_iteration nid (JDict d) =
     (if dict_get d ''id'' = JStr nid then Inr True
      else (case py_get ?dat ''iteration_id'' (JStr []) of
              Inl e \<Rightarrow> Inl e
            | Inr it \<Rightarrow> Inr (it = JStr nid)))"
    by (simp add: node_in_iteration_def dict_get_def cong: sum.case_cong)
  also have "(case py_get ?dat ''iteration_id'' (JStr []) of
              Inl e \<Rightarrow> Inl e
            | Inr it \<Rightarrow> Inr (it = JStr nid)) =
     (case ?dat of
              JDict dd \<Rightarrow>
                Inr ((case map_of dd ''iteration_id'' of None \<Rightarrow> JStr [] | Some v \<Rightarrow> v) = JStr nid)
            | _ \<Rightarrow> Inl AttributeError)"
    by (cases ?dat) simp_all
  finally show ?thesis .
qed

lemma node_retained_dict:
  "node_retained nid (JDict d) =
     (dict_get d ''id'' = JStr nid \<or>
      (case (case map_of d ''data'' of None \<Rightarrow> JDict [] | Some x \<Rightarrow> x) of
         JDict dd \<Rightarrow> (case map_of dd ''iteration_id'' of None \<Rightarrow> JStr [] | Some v \<Rightarrow> v) = JStr nid
       | _ \<Rightarrow> False))"
  by (simp add: node_retained_def node_id_of_def declares_membership_def)

lemma node_in_iteration_Inr:
  "node_in_iteration nid n = Inr b \<Longrightarrow> b = node_retained nid n \<and> (\<exists>d. n = JDict d)"
proof (cases n)
  case (JDict d)
  assume a: "node_in_iteration nid n = Inr b"
  let ?dat = "case map_of d ''data'' of None \<Rightarrow> JDict [] | Some x \<Rightarrow> x"
  show ?thesis
  proof (cases "dict_get d ''id'' = JStr nid")
    case True
    with a JDict show ?thesis
      by (simp add: node_in_iteration_dict node_retained_dict)
  next
    case False
    with a JDict show ?thesis
      by (cases ?dat) (simp_all add: node_in_iteration_dict node_retained_dict)
  qed
qed (simp_all add: node_in_iteration_def)

lemma edge_in_iteration_Inr:
  "edge_in_iteration ids e = Inr b \<Longrightarrow> b = endpoints_absent_or_surviving ids e"
proof (cases e)
  case (JDict d)
  assume "edge_in_iteration ids e = Inr b"
  with JDict show ?thesis
    by (cases "dict_get d ''source'' = JNull \<or> py_in (dict_get d ''source'') ids")
      (simp_all add: edge_in_iteration_def endpoints_absent_or_surviving_def endpoint_def
        dict_get_def)
qed (simp_all add: edge_in_iteration_def)

lemma filter_raise_filter:
  assumes "filter_raise p xs = Inr ys" and "\<And>x b. p x = Inr b \<Longrightarrow> b = P x"
  shows "ys = filter P xs"
  using assms(1)
proof (induction xs arbitrary: ys)
  case Nil
  then show ?case by simp
next
  case (Cons x xs)
  from Cons.prems obtain b zs where b: "p x = Inr b" and zs: "filter_raise p xs = Inr zs"
    and ys: "ys = (if b then x # zs else zs)"
    by (auto split: sum.splits)
  have "b = P x" using b by (rule assms(2))
  moreover have "zs = filter P xs" using zs by (rule Cons.IH)
  ultimately show ?case using ys by simp
qed

lemma retained_nodes:
  assumes "filter_raise (node_in_iteration nid) ns = Inr ys"
  shows "ys = filter (node_retained nid) ns" and "\<forall>n \<in> set ys. \<exists>d. n = JDict d"
proof -
  show ys: "ys = filter (node_retained nid) ns"
    using assms
  proof (rule filter_raise_filter)
    fix x b
    assume "node_in_iteration nid x = Inr b"
    then show "b = node_retained nid x"
      by (simp add: node_in_iteration_Inr)
  qed
  show "\<forall>n \<in> set ys. \<exists>d. n = JDict d"
  proof
    fix n
    assume "n \<in> set ys"
    with ys have "n \<in> set ns" by simp
    with filter_raise_Inr [OF assms] obtain b where "node_in_iteration nid n = Inr b"
      by blast
    then show "\<exists>d. n = JDict d"
      by (simp add: node_in_iteration_Inr)
  qed
qed

lemma retained_edges:
  assumes "filter_raise (edge_in_iteration ids) es = Inr ys"
  shows "ys = filter (endpoints_absent_or_surviving ids) es"
  using assms
proof (rule filter_raise_filter)
  fix x b
  assume "edge_in_iteration ids x = Inr b"
  then show "b = endpoints_absent_or_surviving ids x"
    by (rule edge_in_iteration_Inr)
qed

lemma get_graph_config:
  "get_graph_and_variable_pool_of_single_iteration Graph_init variable_pool_of graph_config nid
     = Inr (graph, pool) \<Longrightarrow>
   \<exists>graph_config'. single_iteration_graph_config graph_config nid = Inr graph_config' \<and>
     Graph_init graph_config' (Some nid) = Inr (Some graph)"
proof -
  assume a: "get_graph_and_variable_pool_of_single_iteration Graph_init variable_pool_of
      graph_config nid = Inr (graph, pool)"
  then obtain c where c: "single_iteration_graph_config graph_config nid = Inr c"
    by (cases "single_iteration_graph_config graph_config nid")
      (simp_all add: get_graph_and_variable_pool_of_single_iteration_def)
  with a obtain go where go: "Graph_init c (Some nid) = Inr go"
    by (cases "Graph_init c (Some nid)")
      (simp_all add: get_graph_and_variable_pool_of_single_iteration_def)
  with a c obtain g where g: "go = Some g"
    by (cases go) (simp_all add: get_graph_and_variable_pool_of_single_iteration_def)
  with a c go have "g = graph"
    by (simp add: get_graph_and_variable_pool_of_single_iteration_def split: sum.splits option.splits)
  with c go g show ?thesis by simp
qed

section \<open>Claims about graph construction\<close>

text \<open>
  Claim C6. \<open>_init_graph\<close> fails with a \<open>ValueError\<close> when \<open>nodes\<close> or \<open>edges\<close> is not a
  key of the configuration, when the value of \<open>nodes\<close> is not a list, when the value of
  \<open>edges\<close> is not a list, and when \<open>Graph.init\<close> resolves no graph (an exception of
  \<open>Graph.init\<close> itself goes to the caller as it is); for a configuration with both lists
  from which \<open>Graph.init\<close> builds a graph it returns that graph. The function writes
  nothing: it has no state to return.
\<close>

theorem init_graph_checks:
  "(map_of graph_config ''nodes'' = None \<or> map_of graph_config ''edges'' = None \<longrightarrow>
      init_graph Graph_init graph_config =
        Inl (ValueError ''nodes or edges not found in workflow graph'')) \<and>
   (map_of graph_config ''nodes'' = Some ns \<and> map_of graph_config ''edges'' = Some es \<longrightarrow>
      (\<not> is_list ns \<longrightarrow>
         init_graph Graph_init graph_config =
           Inl (ValueError ''nodes in workflow graph must be a list'')) \<and>
      (is_list ns \<and> \<not> is_list es \<longrightarrow>
         init_graph Graph_init graph_config =
           Inl (ValueError ''edges in workflow graph must be a list'')) \<and>
      (is_list ns \<and> is_list es \<longrightarrow>
         (Graph_init graph_config None = Inr None \<longrightarrow>
            init_graph Graph_init graph_config = Inl (ValueError ''graph not found in workflow'')) \<and>
         (Graph_init graph_config None = Inl e \<longrightarrow>
            init_graph Graph_init graph_config = Inl e) \<and>
         (Graph_init graph_config None = Inr (Some graph) \<longrightarrow>
            init_graph Graph_init graph_config = Inr graph)))"
  by (simp add: init_graph_def dict_get_def)

theorem init_graph_checks_witness:
  "map_of [(''nodes'', JList [])] ''edges'' = None \<and>
   init_graph (\<lambda>c root. Inr (Some (7::nat))) [(''nodes'', JList [])] =
     Inl (ValueError ''nodes or edges not found in workflow graph'') \<and>
   \<not> is_list (JStr ''n1'') \<and>
   init_graph (\<lambda>c root. Inr (Some (7::nat))) [(''nodes'', JStr ''n1''), (''edges'', JList [])] =
     Inl (ValueError ''nodes in workflow graph must be a list'') \<and>
   is_list (JList []) \<and> \<not> is_list JNull \<and>
   init_graph (\<lambda>c root. Inr (Some (7::nat))) [(''nodes'', JList []), (''edges'', JNull)] =
     Inl (ValueError ''edges in workflow graph must be a list'') \<and>
   init_graph (\<lambda>c root. Inr (None :: nat option)) [(''nodes'', JList []), (''edges'', JList [])] =
     Inl (ValueError ''graph not found in workflow'') \<and>
   init_graph (\<lambda>c root. Inl (ValueError ''root node id not found'') :: error + nat option)
       [(''nodes'', JList []), (''edges'', JList [])] =
     Inl (ValueError ''root node id not found'') \<and>
   init_graph (\<lambda>c root. Inr (Some (7::nat))) [(''nodes'', JList []), (''edges'', JList [])] = Inr 7"
  using
    init_graph_checks [where graph_config = "[(''nodes'', JList [])]"
      and Graph_init = "\<lambda>c root. Inr (Some (7::nat))"]
    init_graph_checks [where graph_config = "[(''nodes'', JStr ''n1''), (''edges'', JList [])]"
      and ns = "JStr ''n1''" and es = "JList []"
      and Graph_init = "\<lambda>c root. Inr (Some (7::nat))"]
    init_graph_checks [where graph_config = "[(''nodes'', JList []), (''edges'', JNull)]"
      and ns = "JList []" and es = JNull
      and Graph_init = "\<lambda>c root. Inr (Some (7::nat))"]
    init_graph_checks [where graph_config = "[(''nodes'', JList []), (''edges'', JList [])]"
      and ns = "JList []" and es = "JList []"
      and Graph_init = "\<lambda>c root. Inr (None :: nat option)"]
    init_graph_checks [where graph_config = "[(''nodes'', JList []), (''edges'', JList [])]"
      and ns = "JList []" and es = "JList []"
      and Graph_init = "\<lambda>c root. Inl (ValueError ''root node id not found'') :: error + nat option"
      and e = "ValueError ''root node id not found''"]
    init_graph_checks [where graph_config = "[(''nodes'', JList []), (''edges'', JList [])]"
      and ns = "JList []" and es = "JList []"
      and Graph_init = "\<lambda>c root. Inr (Some (7::nat))" and graph = 7]
  by simp

text \<open>
  Claim C7, as stated, fails: it asks that the restricted graph keeps exactly the edges
  whose source and target are both among the retained node ids. For a workflow whose
  iteration node \<open>it\<close> has the type \<open>iteration\<close>, the function returns, and the
  configuration from which the graph is built (here the graph is that configuration)
  keeps an edge without a \<open>source\<close> whose target is the iteration node, although no
  retained node has the id \<open>None\<close>.
\<close>

theorem single_iteration_edge_without_source_counterexample:
  "get_graph_and_variable_pool_of_single_iteration
     (\<lambda>graph_config root_node_id. Inr (Some graph_config))
     (\<lambda>iteration_node_config ntype. Inr ntype)
     [(''nodes'', JList [JDict [(''id'', JStr ''it''),
                               (''data'', JDict [(''type'', JStr ''iteration'')])],
                        JDict [(''id'', JStr ''start''),
                               (''data'', JDict [(''type'', JStr ''start'')])]]),
      (''edges'', JList [JDict [(''id'', JStr ''e1''), (''target'', JStr ''it'')]])] ''it'' =
   Inr ([(''nodes'', JList [JDict [(''id'', JStr ''it''),
                                  (''data'', JDict [(''type'', JStr ''iteration'')])]]),
         (''edges'', JList [JDict [(''id'', JStr ''e1''), (''target'', JStr ''it'')]])],
        ITERATION) \<and>
   \<not> both_endpoints_survive [JStr ''it''] (JDict [(''id'', JStr ''e1''), (''target'', JStr ''it'')])"
  by (simp add: get_graph_and_variable_pool_of_single_iteration_def
      single_iteration_graph_config_def dict_get_def node_in_iteration_def
      edge_in_iteration_def py_in_def both_endpoints_survive_def endpoint_def
      value_of_def node_types_def)

text \<open>
  Claim C7, amended. When the restriction succeeds, the configuration handed to
  \<open>Graph.init\<close> is the given one with \<open>nodes\<close> replaced by exactly the nodes whose id
  equals \<open>node_id\<close> or whose data declares membership in it (\<open>iteration_id\<close>, read as the
  empty string when absent, equals \<open>node_id\<close>), in their order, and \<open>edges\<close> replaced by
  exactly the edges each of whose endpoints, \<open>source\<close> and \<open>target\<close>, is absent (or
  \<open>None\<close>) or among the ids of the retained nodes; nothing else is changed.
\<close>

theorem single_iteration_subgraph:
  "single_iteration_graph_config graph_config nid = Inr graph_config' \<Longrightarrow>
   graph_config' =
     dict_set ''edges''
       (JList (filter
          (endpoints_absent_or_surviving
             (map node_id_of
                (filter (node_retained nid) (list_items (dict_get graph_config ''nodes'')))))
          (list_items (dict_get graph_config ''edges''))))
       (dict_set ''nodes''
          (JList (filter (node_retained nid) (list_items (dict_get graph_config ''nodes''))))
          graph_config) \<and>
   dict_get graph_config' ''nodes'' =
     JList (filter (node_retained nid) (list_items (dict_get graph_config ''nodes''))) \<and>
   dict_get graph_config' ''edges'' =
     JList (filter
          (endpoints_absent_or_surviving
             (map node_id_of
                (filter (node_retained nid) (list_items (dict_get graph_config ''nodes'')))))
          (list_items (dict_get graph_config ''edges'')))"
proof -
  assume a: "single_iteration_graph_config graph_config nid = Inr graph_config'"
  let ?nodes = "list_items (dict_get graph_config ''nodes'')"
  let ?edges = "list_items (dict_get graph_config ''edges'')"
  from a obtain node_configs where nc:
    "filter_raise (node_in_iteration nid) ?nodes = Inr node_configs"
    by (auto simp: single_iteration_graph_config_def Let_def split: if_splits sum.splits)
  have nc_eq: "node_configs = filter (node_retained nid) ?nodes"
    and nc_dicts: "\<forall>n \<in> set node_configs. \<exists>d. n = JDict d"
    using retained_nodes [OF nc] by simp_all
  have ids: "map_raise (\<lambda>node. py_get node ''id'' JNull) node_configs
      = Inr (map node_id_of node_configs)"
    using nc_dicts by (rule map_raise_ids)
  from a nc ids obtain edge_configs where ec:
    "filter_raise (edge_in_iteration (map node_id_of node_configs)) ?edges = Inr edge_configs"
    and res: "graph_config' =
      dict_set ''edges'' (JList edge_configs) (dict_set ''nodes'' (JList node_configs) graph_config)"
    by (auto simp: single_iteration_graph_config_def Let_def split: if_splits sum.splits)
  have ec_eq: "edge_configs =
      filter (endpoints_absent_or_surviving (map node_id_of node_configs)) ?edges"
    using ec by (rule retained_edges)
  from res nc_eq ec_eq show ?thesis
    by simp
qed

theorem single_iteration_subgraph_witness:
  "single_iteration_graph_config
     [(''nodes'', JList [JDict [(''id'', JStr ''it''), (''data'', JDict [(''type'', JStr ''iteration'')])],
                        JDict [(''id'', JStr ''a''), (''data'', JDict [(''iteration_id'', JStr ''it'')])],
                        JDict [(''id'', JStr ''b''), (''data'', JDict [])]]),
      (''edges'', JList [JDict [(''source'', JStr ''it''), (''target'', JStr ''a'')],
                        JDict [(''source'', JStr ''a''), (''target'', JStr ''b'')]])] ''it'' =
   Inr [(''nodes'', JList [JDict [(''id'', JStr ''it''), (''data'', JDict [(''type'', JStr ''iteration'')])],
                          JDict [(''id'', JStr ''a''), (''data'', JDict [(''iteration_id'', JStr ''it'')])]]),
        (''edges'', JList [JDict [(''source'', JStr ''it''), (''target'', JStr ''a'')]])] \<and>
   dict_get [(''nodes'', JList [JDict [(''id'', JStr ''it''), (''data'', JDict [(''type'', JStr ''iteration'')])],
                          JDict [(''id'', JStr ''a''), (''data'', JDict [(''iteration_id'', JStr ''it'')])]]),
        (''edges'', JList [JDict [(''source'', JStr ''it''), (''target'', JStr ''a'')]])] ''edges'' =
     JList (filter
          (endpoints_absent_or_surviving [JStr ''it'', JStr ''a''])
          [JDict [(''source'', JStr ''it''), (''target'', JStr ''a'')],
           JDict [(''source'', JStr ''a''), (''target'', JStr ''b'')]])"
proof -
  let ?cfg = "[(''nodes'', JList [JDict [(''id'', JStr ''it''), (''data'', JDict [(''type'', JStr ''iteration'')])],
                        JDict [(''id'', JStr ''a''), (''data'', JDict [(''iteration_id'', JStr ''it'')])],
                        JDict [(''id'', JStr ''b''), (''data'', JDict [])]]),
      (''edges'', JList [JDict [(''source'', JStr ''it''), (''target'', JStr ''a'')],
                        JDict [(''source'', JStr ''a''), (''target'', JStr ''b'')]])]"
  let ?cfg' = "[(''nodes'', JList [JDict [(''id'', JStr ''it''), (''data'', JDict [(''type'', JStr ''iteration'')])],
                          JDict [(''id'', JStr ''a''), (''data'', JDict [(''iteration_id'', JStr ''it'')])]]),
        (''edges'', JList [JDict [(''source'', JStr ''it''), (''target'', JStr ''a'')]])]"
  have h: "single_iteration_graph_config ?cfg ''it'' = Inr ?cfg'"
    by (simp add: single_iteration_graph_config_def dict_get_def node_in_iteration_def
        edge_in_iteration_def py_in_def)
  have n: "filter (node_retained ''it'') (list_items (dict_get ?cfg ''nodes'')) =
      [JDict [(''id'', JStr ''it''), (''data'', JDict [(''type'', JStr ''iteration'')])],
       JDict [(''id'', JStr ''a''), (''data'', JDict [(''iteration_id'', JStr ''it'')])]]"
    by (simp add: dict_get_def node_retained_def node_id_of_def declares_membership_def)
  show ?thesis
    using h single_iteration_subgraph [OF h]
    by (simp only: n) (simp add: dict_get_def node_id_of_def)
qed

section \<open>Claims about the conversion of engine events\<close>

text \<open>
  Claim C8, as stated, fails: it asks that the queue events made for stream chunks and
  retriever resources carry the node-scoped fields too. The \<open>QueueTextChunkEvent\<close> made
  for a \<open>NodeRunStreamChunkEvent\<close> has the fields \<open>text\<close>, \<open>from_variable_selector\<close> and
  \<open>in_iteration_id\<close> only: no \<open>node_id\<close>, and no \<open>parallel_id\<close> although the engine event
  has one.
\<close>

theorem text_chunk_without_node_fields_counterexample:
  "queue_event_of \<lparr>graph_runtime_state = PNone, node_run_steps = 3\<rparr>
     (NodeRunStreamChunkEvent
        \<lparr>event_id = ''exec-1'', node_id = ''llm'', node_type = LLM, node_data = PDict [],
         route_node_state = \<lparr>start_at = PObj ''datetime'' False False, index = 2,
                             node_run_result = None\<rparr>,
         parallel_id = Some ''p1'', parallel_start_node_id = Some ''llm'',
         parent_parallel_id = None, parent_parallel_start_node_id = None,
         in_iteration_id = None\<rparr>
        ''Hel'' (Some [''llm'', ''text''])) =
   \<lparr>event_class = QueueTextChunkEvent,
    kwargs = [(''text'', PStr ''Hel''),
              (''from_variable_selector'', PList [PStr ''llm'', PStr ''text'']),
              (''in_iteration_id'', PNone)]\<rparr> \<and>
   map_of [(''text'', PStr ''Hel''),
           (''from_variable_selector'', PList [PStr ''llm'', PStr ''text'']),
           (''in_iteration_id'', PNone)] ''node_id'' = None \<and>
   map_of [(''text'', PStr ''Hel''),
           (''from_variable_selector'', PList [PStr ''llm'', PStr ''text'']),
           (''in_iteration_id'', PNone)] ''parallel_id'' = None"
  by (simp add: opt_str_def opt_selector_def)

text \<open>
  Claim C8, amended. The queue events that \<open>_handle_event\<close> makes for node started,
  succeeded and failed events carry \<open>node_execution_id\<close>, \<open>node_id\<close>, \<open>node_type\<close>,
  \<open>start_at\<close>, \<open>parallel_id\<close>, \<open>parallel_start_node_id\<close>, \<open>parent_parallel_id\<close>,
  \<open>parent_parallel_start_node_id\<close> and \<open>in_iteration_id\<close>, each copied from the engine
  event (\<open>start_at\<close> from its route node state); those for stream chunks and retriever
  resources carry, of these nine, \<open>in_iteration_id\<close> only.
\<close>

theorem node_events_carry_scope:
  "carried (queue_event_of we (NodeRunStartedEvent event p)) = map Some (node_scope_of event) \<and>
   carried (queue_event_of we (NodeRunSucceededEvent event)) = map Some (node_scope_of event) \<and>
   carried (queue_event_of we (NodeRunFailedEvent event err)) = map Some (node_scope_of event) \<and>
   carried (queue_event_of we (NodeRunStreamChunkEvent event c sel)) =
     [None, None, None, None, None, None, None, None, Some (opt_str (in_iteration_id event))] \<and>
   carried (queue_event_of we (NodeRunRetrieverResourceEvent event rr ctx)) =
     [None, None, None, None, None, None, None, None, Some (opt_str (in_iteration_id event))]"
  by (simp add: carried_def node_scope_fields_def node_scope_of_def)

end
